theory Spec2Isabelle
  imports Main "HOL-Library.Sublist"
begin

section \<open>The OpenAI large-language-model adapter (models/openai/models/llm/llm.py)\<close>

text \<open>
  A shallow embedding of the streaming response handlers, the message codec and the
  token estimator of \<^verbatim>\<open>OpenAILargeLanguageModel\<close>. Python exceptions are values of
  \<open>error\<close>; a function that may raise returns \<open>error + 'a\<close> with \<open>Inl\<close> the exception.
  A generator is modelled by the list of chunks it yields together with the exception,
  if any, that ends it. Record fields carry a short prefix of their class because field
  names are global in a theory (\<open>tc_id\<close> is \<^verbatim>\<open>ToolCall.id\<close>, \<open>dtc_id\<close> is
  \<^verbatim>\<open>ChoiceDeltaToolCall.id\<close>, and so on).
\<close>

subsection \<open>Python values\<close>

datatype error =
    NotImplementedError
  | ValueError
  | KeyError
  | IndexError
  | TypeError
  | AttributeError
  | AssertionError
  | ClientError string

text \<open>Truthiness of an \<^verbatim>\<open>Optional[str]\<close>: \<^verbatim>\<open>None\<close> and \<^verbatim>\<open>""\<close> are falsy.\<close>

fun truthy :: "string option \<Rightarrow> bool" where
  "truthy None = False"
| "truthy (Some s) = (s \<noteq> [])"

text \<open>\<^verbatim>\<open>x or ""\<close> for an \<^verbatim>\<open>Optional[str]\<close>.\<close>

fun or_empty :: "string option \<Rightarrow> string" where
  "or_empty None = []"
| "or_empty (Some s) = s"

text \<open>\<^verbatim>\<open>s.startswith((p1, ..., pn))\<close> with a tuple of prefixes.\<close>

definition startswith_any :: "string list \<Rightarrow> string \<Rightarrow> bool" where
  "startswith_any ps s = list_ex (\<lambda>p. prefix p s) ps"

text \<open>
  \<^verbatim>\<open>s.split(sep)\<close> for a non-empty separator: the pieces between the non-overlapping
  occurrences of \<open>sep\<close>, found from left to right. \<open>acc\<close> holds the current piece reversed.
\<close>

fun split_aux :: "string \<Rightarrow> string \<Rightarrow> string \<Rightarrow> string list" where
  "split_aux sep acc [] = [rev acc]"
| "split_aux sep acc (c # cs) =
     (if prefix sep (c # cs) then rev acc # split_aux sep [] (drop (length sep - 1) cs)
      else split_aux sep (c # acc) cs)"

definition py_split :: "string \<Rightarrow> string \<Rightarrow> string list" where
  "py_split sep s = split_aux sep [] s"

text \<open>
  Loops that add to a counter, and list comprehensions, over a body that may raise:
  the first exception ends the loop.
\<close>

fun sum_results :: "('a \<Rightarrow> error + int) \<Rightarrow> 'a list \<Rightarrow> error + int" where
  "sum_results f [] = Inr 0"
| "sum_results f (x # xs) =
     (case f x of
        Inl e \<Rightarrow> Inl e
      | Inr n \<Rightarrow> (case sum_results f xs of Inl e \<Rightarrow> Inl e | Inr m \<Rightarrow> Inr (n + m)))"

fun map_results :: "('a \<Rightarrow> error + 'b) \<Rightarrow> 'a list \<Rightarrow> error + 'b list" where
  "map_results f [] = Inr []"
| "map_results f (x # xs) =
     (case f x of
        Inl e \<Rightarrow> Inl e
      | Inr y \<Rightarrow> (case map_results f xs of Inl e \<Rightarrow> Inl e | Inr ys \<Rightarrow> Inr (y # ys)))"

text \<open>
  JSON-like Python values, as found in \<^verbatim>\<open>model_parameters\<close> and in the parameter schema of
  a tool. A dict is an association list in insertion order.
\<close>

datatype json =
    JNull
  | JBool bool
  | JNum int
  | JStr string
  | JList "json list"
  | JObj "(string \<times> json) list"

text \<open>Truthiness of a Python value.\<close>

fun json_truthy :: "json \<Rightarrow> bool" where
  "json_truthy JNull = False"
| "json_truthy (JBool b) = b"
| "json_truthy (JNum n) = (n \<noteq> 0)"
| "json_truthy (JStr s) = (s \<noteq> [])"
| "json_truthy (JList xs) = (xs \<noteq> [])"
| "json_truthy (JObj kvs) = (kvs \<noteq> [])"

subsection \<open>Prompt messages (dify\_plugin.entities.model.message)\<close>

text \<open>
  A content part is dispatched on by its \<^verbatim>\<open>type\<close> tag (text, image) or its class (audio);
  every other part is \<open>OtherContent\<close>. An image carries its data and the value of its
  detail level, an audio part its data and its format.
\<close>

datatype prompt_message_content =
    TextPromptMessageContent string
  | ImagePromptMessageContent string string
  | AudioPromptMessageContent string string
  | OtherContent

text \<open>The \<^verbatim>\<open>content\<close> field: \<^verbatim>\<open>None\<close>, a string, or a list of parts.\<close>

datatype content =
    NoContent
  | Text string
  | Parts "prompt_message_content list"

record tool_call_function =
  tcf_name :: string
  tcf_arguments :: string

record tool_call =
  tc_id :: string
  tc_type :: string
  tc_function :: tool_call_function

text \<open>
  The message classes the codec tests with \<^verbatim>\<open>isinstance\<close>, in the arguments
  \<open>content\<close>, \<open>name\<close> (and \<open>tool_calls\<close>, \<open>tool_call_id\<close>). \<open>OtherPromptMessage\<close>
  stands for a \<^verbatim>\<open>PromptMessage\<close> of any other class.
\<close>

datatype prompt_message =
    UserPromptMessage content "string option"
  | AssistantPromptMessage content "string option" "tool_call list"
  | SystemPromptMessage content "string option"
  | ToolPromptMessage content "string option" string
  | OtherPromptMessage content "string option"

fun message_name :: "prompt_message \<Rightarrow> string option" where
  "message_name (UserPromptMessage c n) = n"
| "message_name (AssistantPromptMessage c n tcs) = n"
| "message_name (SystemPromptMessage c n) = n"
| "message_name (ToolPromptMessage c n i) = n"
| "message_name (OtherPromptMessage c n) = n"

fun message_content :: "prompt_message \<Rightarrow> content" where
  "message_content (UserPromptMessage c n) = c"
| "message_content (AssistantPromptMessage c n tcs) = c"
| "message_content (SystemPromptMessage c n) = c"
| "message_content (ToolPromptMessage c n i) = c"
| "message_content (OtherPromptMessage c n) = c"

fun message_tool_calls :: "prompt_message \<Rightarrow> tool_call list" where
  "message_tool_calls (AssistantPromptMessage c n tcs) = tcs"
| "message_tool_calls _ = []"

record prompt_message_tool =
  tool_name :: string
  tool_description :: string
  tool_parameters :: "(string \<times> json) list"

subsection \<open>Message codec: \<^verbatim>\<open>_convert_prompt_message_to_dict\<close>\<close>

text \<open>
  The sub-records of a multi-part user message: \<^verbatim>\<open>{"type": "text", "text": d}\<close>,
  \<^verbatim>\<open>{"type": "image_url", "image_url": {"url": d, "detail": v}}\<close> and
  \<^verbatim>\<open>{"type": "input_audio", "input_audio": {"data": b, "format": f}}\<close>.
\<close>

datatype sub_message =
    TextSub string
  | ImageUrlSub string string
  | InputAudioSub string string

text \<open>
  The values of a wire record: \<^verbatim>\<open>None\<close>, a string, the list of sub-records of a user
  message, a content list passed through unconverted (assistant, system and tool messages),
  and the list of tool-call dicts, each \<^verbatim>\<open>{"id", "type", "function": {"name", "arguments"}}\<close>.
\<close>

datatype dict_value =
    DNone
  | DStr string
  | DSubMessages "sub_message list"
  | DContents "prompt_message_content list"
  | DToolCalls "tool_call list"

type_synonym message_dict = "(string \<times> dict_value) list"

fun content_value :: "content \<Rightarrow> dict_value" where
  "content_value NoContent = DNone"
| "content_value (Text s) = DStr s"
| "content_value (Parts ps) = DContents ps"

text \<open>One pass of the loop over the parts of a user message: the sub-record appended, if any.\<close>

fun convert_content :: "prompt_message_content \<Rightarrow> error + sub_message list" where
  "convert_content (TextPromptMessageContent d) = Inr [TextSub d]"
| "convert_content (ImagePromptMessageContent d detail) = Inr [ImageUrlSub d detail]"
| "convert_content (AudioPromptMessageContent d fmt) =
     (case py_split '';base64,'' d of
        a # base64_data # rest \<Rightarrow> Inr [InputAudioSub base64_data fmt]
      | _ \<Rightarrow> Inl IndexError)"
| "convert_content OtherContent = Inr []"

text \<open>\<^verbatim>\<open>tool_call.type or "function"\<close> in the dict of an assistant tool call.\<close>

definition tool_call_dict :: "tool_call \<Rightarrow> tool_call" where
  "tool_call_dict tc = tc\<lparr>tc_type := (if tc_type tc \<noteq> [] then tc_type tc else ''function'')\<rparr>"

text \<open>Assignment \<^verbatim>\<open>d[k] = v\<close> on a dict: replaces in place, or appends a new key.\<close>

fun dict_set :: "('k \<times> 'v) list \<Rightarrow> 'k \<Rightarrow> 'v \<Rightarrow> ('k \<times> 'v) list" where
  "dict_set [] k v = [(k, v)]"
| "dict_set ((k', v') # kvs) k v =
     (if k' = k then (k, v) # kvs else (k', v') # dict_set kvs k v)"

text \<open>The record built by the \<^verbatim>\<open>isinstance\<close> chain, before the name is attached.\<close>

fun role_dict :: "prompt_message \<Rightarrow> error + message_dict" where
  "role_dict (UserPromptMessage c n) =
     (case c of
        Text s \<Rightarrow> Inr [(''role'', DStr ''user''), (''content'', DStr s)]
      | NoContent \<Rightarrow> Inl AssertionError
      | Parts ps \<Rightarrow>
          (case map_results convert_content ps of
             Inl e \<Rightarrow> Inl e
           | Inr subs \<Rightarrow>
               Inr [(''role'', DStr ''user''), (''content'', DSubMessages (concat subs))]))"
| "role_dict (AssistantPromptMessage c n tcs) =
     Inr ([(''role'', DStr ''assistant''), (''content'', content_value c)] @
          (if tcs \<noteq> [] then [(''tool_calls'', DToolCalls (map tool_call_dict tcs))] else []))"
| "role_dict (SystemPromptMessage c n) =
     Inr [(''role'', DStr ''system''), (''content'', content_value c)]"
| "role_dict (ToolPromptMessage c n i) =
     Inr [(''role'', DStr ''tool''), (''content'', content_value c), (''tool_call_id'', DStr i)]"
| "role_dict (OtherPromptMessage c n) = Inl ValueError"

definition convert_prompt_message_to_dict :: "prompt_message \<Rightarrow> error + message_dict" where
  "convert_prompt_message_to_dict message =
     (case role_dict message of
        Inl e \<Rightarrow> Inl e
      | Inr message_dict \<Rightarrow>
          if truthy (message_name message) \<and> map_of message_dict ''role'' \<noteq> Some (DStr ''tool'')
          then Inr (dict_set message_dict ''name'' (DStr (or_empty (message_name message))))
          else Inr message_dict)"

subsection \<open>Token estimator\<close>

text \<open>
  The tokenizer library is external. An encoding is its method \<^verbatim>\<open>encode\<close> with the
  default arguments: it maps a text to its tokens, and is \<open>None\<close> where \<^verbatim>\<open>encode\<close>
  raises \<^verbatim>\<open>ValueError\<close>, as it does on a text that holds a special token such as
  \<^verbatim>\<open><|endoftext|>\<close>. \<open>encoding_for_model\<close> is \<^verbatim>\<open>tiktoken.encoding_for_model\<close> with
  \<open>None\<close> for its \<^verbatim>\<open>KeyError\<close>, \<open>cl100k_base\<close> is
  \<^verbatim>\<open>tiktoken.get_encoding("cl100k_base")\<close>, and \<open>py_str\<close> is Python's \<^verbatim>\<open>str\<close> on a
  JSON-like value.
\<close>

type_synonym encoding = "string \<Rightarrow> nat list option"

record externals =
  encoding_for_model :: "string \<Rightarrow> encoding option"
  cl100k_base :: encoding
  py_str :: "json \<Rightarrow> string"

text \<open>\<^verbatim>\<open>len(encoding.encode(text))\<close>, or the \<^verbatim>\<open>ValueError\<close> of \<^verbatim>\<open>encode\<close>.\<close>

definition ntok :: "encoding \<Rightarrow> string \<Rightarrow> error + int" where
  "ntok encoding text =
     (case encoding text of None \<Rightarrow> Inl ValueError | Some tokens \<Rightarrow> Inr (int (length tokens)))"

text \<open>The \<^verbatim>\<open>try: encoding_for_model(model) except KeyError: get_encoding("cl100k_base")\<close> block.\<close>

definition resolve_encoding :: "externals \<Rightarrow> string \<Rightarrow> encoding" where
  "resolve_encoding ext model =
     (case encoding_for_model ext model of Some encoding \<Rightarrow> encoding | None \<Rightarrow> cl100k_base ext)"

text \<open>A run of \<^verbatim>\<open>num_tokens += ...\<close> statements, in order; the first exception ends it.\<close>

definition sum_all :: "(error + int) list \<Rightarrow> error + int" where
  "sum_all rs = sum_results (\<lambda>r. r) rs"

text \<open>
  \<^verbatim>\<open>len(encoding.encode(v))\<close> on a Python value: a \<^verbatim>\<open>TypeError\<close> unless \<open>v\<close> is a
  string.
\<close>

fun encode_value :: "encoding \<Rightarrow> json option \<Rightarrow> error + int" where
  "encode_value encoding (Some (JStr s)) = ntok encoding s"
| "encode_value encoding _ = Inl TypeError"

text \<open>Iterating a Python value with \<^verbatim>\<open>for\<close>: a list, the characters of a string, the keys of a dict.\<close>

fun py_iter :: "json \<Rightarrow> error + json list" where
  "py_iter (JList xs) = Inr xs"
| "py_iter (JStr s) = Inr (map (\<lambda>c. JStr [c]) s)"
| "py_iter (JObj kvs) = Inr (map (\<lambda>kv. JStr (fst kv)) kvs)"
| "py_iter _ = Inl TypeError"

text \<open>\<^verbatim>\<open>v.items()\<close>: an \<^verbatim>\<open>AttributeError\<close> unless \<open>v\<close> is a dict.\<close>

fun py_items :: "json option \<Rightarrow> error + (string \<times> json) list" where
  "py_items (Some (JObj kvs)) = Inr kvs"
| "py_items _ = Inl AttributeError"

text \<open>The loop \<^verbatim>\<open>for x in v: num_tokens += 3; num_tokens += len(encoding.encode(x))\<close>.\<close>

definition listed_tokens :: "encoding \<Rightarrow> json \<Rightarrow> error + int" where
  "listed_tokens encoding v =
     (case py_iter v of
        Inl e \<Rightarrow> Inl e
      | Inr xs \<Rightarrow> sum_results (\<lambda>x. sum_all [Inr 3, encode_value encoding (Some x)]) xs)"

text \<open>The body of \<^verbatim>\<open>for field_key, field_value in value.items()\<close>.\<close>

definition field_tokens :: "externals \<Rightarrow> encoding \<Rightarrow> string \<times> json \<Rightarrow> error + int" where
  "field_tokens ext encoding kv =
     (case kv of (field_key, field_value) \<Rightarrow>
        sum_all [ntok encoding field_key,
                 if field_key = ''enum'' then listed_tokens encoding field_value
                 else sum_all [ntok encoding field_key,
                               ntok encoding (py_str ext field_value)]])"

text \<open>The body of \<^verbatim>\<open>for key, value in parameters.get("properties").items()\<close>.\<close>

definition property_tokens :: "externals \<Rightarrow> encoding \<Rightarrow> string \<times> json \<Rightarrow> error + int" where
  "property_tokens ext encoding kv =
     (case kv of (key, v) \<Rightarrow>
        sum_all [ntok encoding key,
                 case py_items (Some v) of
                   Inl e \<Rightarrow> Inl e
                 | Inr field_items \<Rightarrow> sum_results (field_tokens ext encoding) field_items])"

text \<open>The body of \<^verbatim>\<open>for tool in tools\<close> in \<^verbatim>\<open>_num_tokens_for_tools\<close>.\<close>

definition tool_tokens :: "externals \<Rightarrow> encoding \<Rightarrow> prompt_message_tool \<Rightarrow> error + int" where
  "tool_tokens ext encoding tool =
     (let parameters = tool_parameters tool in
      sum_all
        [ntok encoding ''type'',
         ntok encoding ''function'',
         ntok encoding ''name'',
         ntok encoding (tool_name tool),
         ntok encoding ''description'',
         ntok encoding (tool_description tool),
         ntok encoding ''parameters'',
         if map_of parameters ''title'' \<noteq> None
         then sum_all [ntok encoding ''title'',
                       encode_value encoding (map_of parameters ''title'')]
         else Inr 0,
         ntok encoding ''type'',
         encode_value encoding (map_of parameters ''type''),
         if map_of parameters ''properties'' \<noteq> None
         then sum_all [ntok encoding ''properties'',
                       case py_items (map_of parameters ''properties'') of
                         Inl e \<Rightarrow> Inl e
                       | Inr props \<Rightarrow> sum_results (property_tokens ext encoding) props]
         else Inr 0,
         case map_of parameters ''required'' of
           None \<Rightarrow> Inr 0
         | Some required \<Rightarrow>
             sum_all [ntok encoding ''required'', listed_tokens encoding required]])"

definition num_tokens_for_tools ::
  "externals \<Rightarrow> encoding \<Rightarrow> prompt_message_tool list \<Rightarrow> error + int" where
  "num_tokens_for_tools ext encoding tools = sum_results (tool_tokens ext encoding) tools"

text \<open>\<^verbatim>\<open>_num_tokens_from_string\<close>; \<open>tools\<close> is \<open>[]\<close> for \<^verbatim>\<open>None\<close>.\<close>

definition num_tokens_from_string ::
  "externals \<Rightarrow> string \<Rightarrow> string \<Rightarrow> prompt_message_tool list \<Rightarrow> error + int" where
  "num_tokens_from_string ext model text tools =
     (let encoding = resolve_encoding ext model in
      sum_all [ntok encoding text,
               if tools \<noteq> [] then num_tokens_for_tools ext encoding tools else Inr 0])"

text \<open>\<^verbatim>\<open>model.split(":")[1]\<close>.\<close>

definition split_base_model :: "string \<Rightarrow> error + string" where
  "split_base_model model =
     (case py_split '':'' model of a # b # rest \<Rightarrow> Inr b | _ \<Rightarrow> Inl IndexError)"

text \<open>
  The head of \<^verbatim>\<open>_num_tokens_from_messages\<close>: the fine-tune prefix is stripped, and
  the models counted like gpt-4o are renamed.
\<close>

definition estimation_model :: "string \<Rightarrow> error + string" where
  "estimation_model model =
     (case (if prefix ''ft:'' model then split_base_model model else Inr model) of
        Inl e \<Rightarrow> Inl e
      | Inr m \<Rightarrow>
          if m = ''chatgpt-4o-latest'' \<or>
             startswith_any [''o1'', ''o3'', ''o4'', ''gpt-4.1'', ''gpt-4.5''] m
          then Inr ''gpt-4o'' else Inr m)"

text \<open>
  \<open>(tokens_per_message, tokens_per_name)\<close> of a model; \<open>None\<close> is the branch that raises
  \<^verbatim>\<open>NotImplementedError\<close>.
\<close>

definition tokens_per :: "string \<Rightarrow> (int \<times> int) option" where
  "tokens_per model =
     (if prefix ''gpt-3.5-turbo-0301'' model then Some (4, - 1)
      else if prefix ''gpt-3.5-turbo'' model \<or> prefix ''gpt-4'' model \<or>
              startswith_any [''o1'', ''o3'', ''o4''] model
      then Some (3, 1)
      else None)"

text \<open>
  The \<^verbatim>\<open>isinstance(value, list)\<close> block: a list value is replaced by the concatenated
  text of its items that are dicts of type \<^verbatim>\<open>"text"\<close>. A tool-call dict has no
  \<^verbatim>\<open>"text"\<close> key. The result is \<open>None\<close> for \<^verbatim>\<open>None\<close>.
\<close>

fun sub_message_text :: "sub_message \<Rightarrow> string" where
  "sub_message_text (TextSub d) = d"
| "sub_message_text _ = []"

fun flatten_value :: "dict_value \<Rightarrow> error + string option" where
  "flatten_value DNone = Inr None"
| "flatten_value (DStr s) = Inr (Some s)"
| "flatten_value (DSubMessages subs) = Inr (Some (concat (map sub_message_text subs)))"
| "flatten_value (DContents cs) = Inr (Some [])"
| "flatten_value (DToolCalls tcs) =
     (if list_ex (\<lambda>tc. tc_type tc = ''text'') tcs then Inl KeyError else Inr (Some []))"

text \<open>\<^verbatim>\<open>str(value)\<close> on \<^verbatim>\<open>None\<close> or a string.\<close>

fun str_value :: "string option \<Rightarrow> string" where
  "str_value None = ''None''"
| "str_value (Some s) = s"

text \<open>
  The body of \<^verbatim>\<open>for key, value in message.items()\<close>. Under the key \<^verbatim>\<open>"tool_calls"\<close>
  the loop \<^verbatim>\<open>for tool_call in value\<close> runs over the flattened value: no pass on the
  empty string, \<^verbatim>\<open>tool_call.items()\<close> on a character otherwise.
\<close>

definition item_tokens :: "encoding \<Rightarrow> int \<Rightarrow> string \<times> dict_value \<Rightarrow> error + int" where
  "item_tokens encoding tokens_per_name kv =
     (case kv of (key, v) \<Rightarrow>
        (case flatten_value v of
           Inl e \<Rightarrow> Inl e
         | Inr val \<Rightarrow>
             sum_all [if key = ''tool_calls''
                      then (case val of
                              None \<Rightarrow> Inl TypeError
                            | Some t \<Rightarrow> if t = [] then Inr 0 else Inl AttributeError)
                      else ntok encoding (str_value val),
                      Inr (if key = ''name'' then tokens_per_name else 0)]))"

text \<open>The body of \<^verbatim>\<open>for message in messages_dict\<close>.\<close>

definition message_tokens :: "encoding \<Rightarrow> int \<Rightarrow> int \<Rightarrow> message_dict \<Rightarrow> error + int" where
  "message_tokens encoding tokens_per_message tokens_per_name message =
     sum_all [Inr tokens_per_message,
              sum_results (item_tokens encoding tokens_per_name) message]"

text \<open>\<^verbatim>\<open>_num_tokens_from_messages\<close>; \<open>tools\<close> is \<open>[]\<close> for \<^verbatim>\<open>None\<close>.\<close>

definition num_tokens_from_messages ::
  "externals \<Rightarrow> string \<Rightarrow> prompt_message list \<Rightarrow> prompt_message_tool list \<Rightarrow> error + int" where
  "num_tokens_from_messages ext model messages tools =
     (case estimation_model model of
        Inl e \<Rightarrow> Inl e
      | Inr m \<Rightarrow>
          (let encoding = resolve_encoding ext m in
           case tokens_per m of
             None \<Rightarrow> Inl NotImplementedError
           | Some (tokens_per_message, tokens_per_name) \<Rightarrow>
               (case map_results convert_prompt_message_to_dict messages of
                  Inl e \<Rightarrow> Inl e
                | Inr messages_dict \<Rightarrow>
                    sum_all
                      [sum_results
                         (message_tokens encoding tokens_per_message tokens_per_name)
                         messages_dict,
                       Inr 3,
                       if tools \<noteq> [] then num_tokens_for_tools ext encoding tools
                       else Inr 0])))"

subsection \<open>Wire fragments (openai.types) and result chunks (dify\_plugin)\<close>

record completion_usage =
  cu_prompt_tokens :: int
  cu_completion_tokens :: int

record choice_delta_function_call =
  fc_name :: "string option"
  fc_arguments :: "string option"

record choice_delta_tool_call_function =
  dtf_name :: "string option"
  dtf_arguments :: "string option"

record choice_delta_tool_call =
  dtc_index :: int
  dtc_id :: "string option"
  dtc_type :: "string option"
  dtc_function :: "choice_delta_tool_call_function option"

record choice_delta =
  cd_content :: "string option"
  cd_tool_calls :: "choice_delta_tool_call list option"
  cd_function_call :: "choice_delta_function_call option"

record choice =
  ch_index :: int
  ch_delta :: choice_delta
  ch_finish_reason :: "string option"

record chat_completion_chunk =
  ccc_choices :: "choice list"
  ccc_model :: string
  ccc_system_fingerprint :: "string option"
  ccc_usage :: "completion_usage option"

record completion_choice =
  cc_text :: "string option"
  cc_index :: int
  cc_finish_reason :: "string option"

record completion =
  co_choices :: "completion_choice list"
  co_model :: string
  co_system_fingerprint :: "string option"
  co_usage :: "completion_usage option"

text \<open>
  The usage record \<^verbatim>\<open>LLMUsage\<close> is built by the framework's \<^verbatim>\<open>_calc_response_usage\<close>;
  its type is the parameter \<open>'u\<close>.
\<close>

record 'u llm_result_chunk_delta =
  d_index :: int
  d_message :: prompt_message
  d_usage :: "'u option"
  d_finish_reason :: "string option"

record 'u llm_result_chunk =
  r_model :: string
  r_prompt_messages :: "prompt_message list"
  r_system_fingerprint :: "string option"
  r_delta :: "'u llm_result_chunk_delta"

type_synonym credentials = "(string \<times> string) list"

type_synonym 'u calc_response_usage = "string \<Rightarrow> credentials \<Rightarrow> int \<Rightarrow> int \<Rightarrow> 'u"

subsection \<open>Extraction of tool calls\<close>

text \<open>\<^verbatim>\<open>_extract_response_tool_calls\<close>: a fragment without a function is left out.\<close>

fun extract_response_tool_calls :: "choice_delta_tool_call list \<Rightarrow> tool_call list" where
  "extract_response_tool_calls [] = []"
| "extract_response_tool_calls (response_tool_call # rest) =
     (case dtc_function response_tool_call of
        Some f \<Rightarrow>
          \<lparr>tc_id = or_empty (dtc_id response_tool_call),
           tc_type = or_empty (dtc_type response_tool_call),
           tc_function = \<lparr>tcf_name = or_empty (dtf_name f),
                          tcf_arguments = or_empty (dtf_arguments f)\<rparr>\<rparr>
          # extract_response_tool_calls rest
      | None \<Rightarrow> extract_response_tool_calls rest)"

text \<open>\<^verbatim>\<open>_extract_response_function_call\<close>: the id of a legacy call is its function name.\<close>

fun extract_response_function_call :: "choice_delta_function_call option \<Rightarrow> tool_call option" where
  "extract_response_function_call None = None"
| "extract_response_function_call (Some response_function_call) =
     Some \<lparr>tc_id = or_empty (fc_name response_function_call),
           tc_type = ''function'',
           tc_function = \<lparr>tcf_name = or_empty (fc_name response_function_call),
                          tcf_arguments = or_empty (fc_arguments response_function_call)\<rparr>\<rparr>"

subsection \<open>Chat stream aggregator: \<^verbatim>\<open>_handle_chat_generate_stream_response\<close>\<close>

text \<open>
  The local variables of the generator. The counters and the held final chunk are shared
  with the text-completion handler. \<open>aggregated_tool_calls\<close> is the dict from index to
  fragment, in insertion order.
\<close>

record 'u usage_state =
  prompt_tokens :: int
  completion_tokens :: int
  final_chunk :: "'u llm_result_chunk"

record 'u chat_state = "'u usage_state" +
  full_assistant_content :: string
  delta_assistant_message_function_call_storage :: "choice_delta_function_call option"
  final_tool_calls :: "tool_call list"
  aggregated_tool_calls :: "(int \<times> choice_delta_tool_call) list"

text \<open>The chunk both handlers start from.\<close>

definition initial_final_chunk :: "string \<Rightarrow> prompt_message list \<Rightarrow> 'u llm_result_chunk" where
  "initial_final_chunk model prompt_messages =
     \<lparr>r_model = model, r_prompt_messages = prompt_messages, r_system_fingerprint = None,
      r_delta = \<lparr>d_index = 0, d_message = AssistantPromptMessage (Text []) None [],
                 d_usage = None, d_finish_reason = None\<rparr>\<rparr>"

definition initial_chat_state :: "string \<Rightarrow> prompt_message list \<Rightarrow> 'u chat_state" where
  "initial_chat_state model prompt_messages =
     \<lparr>prompt_tokens = 0, completion_tokens = 0,
      final_chunk = initial_final_chunk model prompt_messages,
      full_assistant_content = [],
      delta_assistant_message_function_call_storage = None,
      final_tool_calls = [],
      aggregated_tool_calls = []\<rparr>"

text \<open>
  \<open>has_finish_reason\<close>, with the special case of the yi models: there only a finish
  reason starting with one of three words counts.
\<close>

definition has_finish_reason :: "string \<Rightarrow> string option \<Rightarrow> bool" where
  "has_finish_reason model finish_reason =
     (if prefix ''yi-'' model
      then (case finish_reason of
              Some r \<Rightarrow> startswith_any [''length'', ''stop'', ''content_filter''] r
            | None \<Rightarrow> False)
      else finish_reason \<noteq> None)"

text \<open>
  The merge of a fragment into the entry of its index (the \<^verbatim>\<open>elif\<close> branch of the
  aggregation loop). Writing the name or the arguments of an entry that has no function
  raises \<^verbatim>\<open>AttributeError\<close>; appending to arguments that are \<^verbatim>\<open>None\<close> raises
  \<^verbatim>\<open>TypeError\<close>.
\<close>

definition merge_function ::
  "choice_delta_tool_call_function option \<Rightarrow> choice_delta_tool_call_function \<Rightarrow>
   error + choice_delta_tool_call_function option" where
  "merge_function existing f =
     (case (if truthy (dtf_name f)
            then (case existing of
                    None \<Rightarrow> Inl AttributeError
                  | Some ef \<Rightarrow> Inr (Some (ef\<lparr>dtf_name := dtf_name f\<rparr>)))
            else Inr existing) of
        Inl e \<Rightarrow> Inl e
      | Inr named \<Rightarrow>
          if truthy (dtf_arguments f)
          then (case named of
                  None \<Rightarrow> Inl AttributeError
                | Some ef \<Rightarrow>
                    (case dtf_arguments ef of
                       None \<Rightarrow> Inl TypeError
                     | Some a \<Rightarrow>
                         Inr (Some (ef\<lparr>dtf_arguments := Some (a @ or_empty (dtf_arguments f))\<rparr>))))
          else Inr named)"

definition merge_tool_call ::
  "choice_delta_tool_call \<Rightarrow> choice_delta_tool_call \<Rightarrow> error + choice_delta_tool_call" where
  "merge_tool_call existing_call tool_call_chunk =
     (let c1 = (if truthy (dtc_id tool_call_chunk)
                then existing_call\<lparr>dtc_id := dtc_id tool_call_chunk\<rparr> else existing_call);
          c2 = (if truthy (dtc_type tool_call_chunk)
                then c1\<lparr>dtc_type := dtc_type tool_call_chunk\<rparr> else c1)
      in case dtc_function tool_call_chunk of
           None \<Rightarrow> Inr c2
         | Some f \<Rightarrow>
             (case merge_function (dtc_function c2) f of
                Inl e \<Rightarrow> Inl e
              | Inr fn \<Rightarrow> Inr (c2\<lparr>dtc_function := fn\<rparr>)))"

text \<open>One pass of \<^verbatim>\<open>for tool_call_chunk in assistant_message_tool_calls\<close>, and the loop.\<close>

definition aggregate_tool_call ::
  "(int \<times> choice_delta_tool_call) list \<Rightarrow> choice_delta_tool_call \<Rightarrow>
   error + (int \<times> choice_delta_tool_call) list" where
  "aggregate_tool_call aggregated tool_call_chunk =
     (if truthy (dtc_id tool_call_chunk) \<and> map_of aggregated (dtc_index tool_call_chunk) = None
      then Inr (dict_set aggregated (dtc_index tool_call_chunk) tool_call_chunk)
      else (case map_of aggregated (dtc_index tool_call_chunk) of
              Some existing_call \<Rightarrow>
                (case merge_tool_call existing_call tool_call_chunk of
                   Inl e \<Rightarrow> Inl e
                 | Inr merged \<Rightarrow> Inr (dict_set aggregated (dtc_index tool_call_chunk) merged))
            | None \<Rightarrow> Inr aggregated))"

fun aggregate_tool_calls ::
  "(int \<times> choice_delta_tool_call) list \<Rightarrow> choice_delta_tool_call list \<Rightarrow>
   error + (int \<times> choice_delta_tool_call) list" where
  "aggregate_tool_calls aggregated [] = Inr aggregated"
| "aggregate_tool_calls aggregated (tool_call_chunk # rest) =
     (case aggregate_tool_call aggregated tool_call_chunk of
        Inl e \<Rightarrow> Inl e
      | Inr aggregated' \<Rightarrow> aggregate_tool_calls aggregated' rest)"

text \<open>
  The legacy function-call branch. \<open>Suspend\<close> is its \<^verbatim>\<open>continue\<close>; \<open>Resume\<close> carries
  the value of \<^verbatim>\<open>assistant_message_function_call\<close> on to the extraction.
\<close>

datatype 'u legacy =
    Suspend "'u chat_state"
  | Resume "'u chat_state" "choice_delta_function_call option"

definition legacy_function_call ::
  "bool \<Rightarrow> 'u chat_state \<Rightarrow> choice_delta_function_call option \<Rightarrow> error + 'u legacy" where
  "legacy_function_call has_fr s assistant_message_function_call =
     (case delta_assistant_message_function_call_storage s of
        Some storage \<Rightarrow>
          (case assistant_message_function_call of
             Some fc \<Rightarrow>
               (case fc_arguments storage of
                  None \<Rightarrow> Inl AssertionError
                | Some a \<Rightarrow>
                    (case fc_arguments fc of
                       None \<Rightarrow> Inl AssertionError
                     | Some b \<Rightarrow>
                         Inr (Suspend (s\<lparr>delta_assistant_message_function_call_storage :=
                                           Some (storage\<lparr>fc_arguments := Some (a @ b)\<rparr>)\<rparr>))))
           | None \<Rightarrow>
               Inr (Resume (s\<lparr>delta_assistant_message_function_call_storage := None\<rparr>)
                      (Some storage)))
      | None \<Rightarrow>
          (case assistant_message_function_call of
             Some fc \<Rightarrow>
               (let storage = (if fc_arguments fc = None then fc\<lparr>fc_arguments := Some []\<rparr>
                               else fc);
                    s' = s\<lparr>delta_assistant_message_function_call_storage := Some storage\<rparr>
                in if \<not> has_fr then Inr (Suspend s') else Inr (Resume s' (Some storage)))
           | None \<Rightarrow> Inr (Resume s None)))"

text \<open>A chunk built from a fragment and its first choice.\<close>

definition result_chunk ::
  "prompt_message list \<Rightarrow> string \<Rightarrow> string option \<Rightarrow> int \<Rightarrow> prompt_message \<Rightarrow>
   string option \<Rightarrow> 'u llm_result_chunk" where
  "result_chunk prompt_messages model fingerprint index message finish_reason =
     \<lparr>r_model = model, r_prompt_messages = prompt_messages,
      r_system_fingerprint = fingerprint,
      r_delta = \<lparr>d_index = index, d_message = message, d_usage = None,
                 d_finish_reason = finish_reason\<rparr>\<rparr>"

text \<open>
  The loop body from \<^verbatim>\<open>if tool_calls: final_tool_calls.extend(tool_calls)\<close> to its end:
  the aggregation, the terminal tool-calls chunk, and the content chunk that is yielded
  or held.
\<close>

definition emit_step ::
  "prompt_message list \<Rightarrow> bool \<Rightarrow> chat_completion_chunk \<Rightarrow> choice \<Rightarrow> 'u chat_state \<Rightarrow>
   tool_call list \<Rightarrow> error + ('u chat_state \<times> 'u llm_result_chunk list)" where
  "emit_step prompt_messages has_fr chunk delta s tool_calls =
     (let s1 = s\<lparr>final_tool_calls := final_tool_calls s @ tool_calls\<rparr> in
      case (case cd_tool_calls (ch_delta delta) of
              Some (t # ts) \<Rightarrow> aggregate_tool_calls (aggregated_tool_calls s1) (t # ts)
            | _ \<Rightarrow> Inr (aggregated_tool_calls s1)) of
        Inl e \<Rightarrow> Inl e
      | Inr aggregated \<Rightarrow>
          (let s2 = s1\<lparr>aggregated_tool_calls := aggregated\<rparr> in
           if has_fr \<and> ch_finish_reason delta = Some ''tool_calls''
           then (let tcs = extract_response_tool_calls (map snd aggregated) in
                 Inr (s2\<lparr>final_tool_calls := final_tool_calls s2 @ tcs\<rparr>,
                      [result_chunk prompt_messages (ccc_model chunk)
                         (ccc_system_fingerprint chunk) (ch_index delta)
                         (AssistantPromptMessage (Text []) None tcs) (Some ''tool_calls'')]))
           else (let content = or_empty (cd_content (ch_delta delta));
                     assistant_prompt_message = AssistantPromptMessage (Text content) None [];
                     s3 = s2\<lparr>full_assistant_content := full_assistant_content s2 @ content\<rparr>
                 in if has_fr
                    then Inr (s3\<lparr>final_chunk :=
                                   result_chunk prompt_messages (ccc_model chunk)
                                     (ccc_system_fingerprint chunk) (ch_index delta)
                                     assistant_prompt_message (ch_finish_reason delta)\<rparr>, [])
                    else Inr (s3, [result_chunk prompt_messages (ccc_model chunk)
                                     (ccc_system_fingerprint chunk) (ch_index delta)
                                     assistant_prompt_message None]))))"

text \<open>
  The body of \<^verbatim>\<open>for chunk in response\<close>: the new state and the chunks yielded in this
  pass (none or one), or the exception raised.
\<close>

definition chat_step ::
  "string \<Rightarrow> prompt_message list \<Rightarrow> 'u chat_state \<Rightarrow> chat_completion_chunk \<Rightarrow>
   error + ('u chat_state \<times> 'u llm_result_chunk list)" where
  "chat_step model prompt_messages s chunk =
     (case ccc_choices chunk of
        [] \<Rightarrow>
          (case ccc_usage chunk of
             Some u \<Rightarrow> Inr (s\<lparr>prompt_tokens := cu_prompt_tokens u,
                              completion_tokens := cu_completion_tokens u\<rparr>, [])
           | None \<Rightarrow> Inr (s, []))
      | delta # others \<Rightarrow>
          (let has_fr = has_finish_reason model (ch_finish_reason delta);
               d = ch_delta delta
           in if \<not> has_fr \<and> (cd_content d = None \<or> cd_content d = Some [])
                 \<and> cd_tool_calls d = None \<and> cd_function_call d = None
              then Inr (s, [])
              else (case cd_tool_calls d of
                      Some (t # ts) \<Rightarrow>
                        emit_step prompt_messages has_fr chunk delta s
                          (extract_response_tool_calls (t # ts))
                    | _ \<Rightarrow>
                        (case legacy_function_call has_fr s (cd_function_call d) of
                           Inl e \<Rightarrow> Inl e
                         | Inr (Suspend s') \<Rightarrow> Inr (s', [])
                         | Inr (Resume s' fc) \<Rightarrow>
                             emit_step prompt_messages has_fr chunk delta s'
                               (case extract_response_function_call fc of
                                  Some function_call \<Rightarrow> [function_call]
                                | None \<Rightarrow> [])))))"

text \<open>
  A generator run over the fragments: the chunks yielded, then the final state or the
  exception that ended the run.
\<close>

fun run_stream ::
  "('s \<Rightarrow> 'f \<Rightarrow> error + ('s \<times> 'c list)) \<Rightarrow> 's \<Rightarrow> 'f list \<Rightarrow> 'c list \<times> (error + 's)" where
  "run_stream step s [] = ([], Inr s)"
| "run_stream step s (f # fs) =
     (case step s f of
        Inl e \<Rightarrow> ([], Inl e)
      | Inr (s', out) \<Rightarrow>
          (case run_stream step s' fs of (outs, r) \<Rightarrow> (out @ outs, r)))"

text \<open>\<^verbatim>\<open>final_chunk.delta.usage = usage\<close>.\<close>

definition with_usage :: "'u llm_result_chunk \<Rightarrow> 'u \<Rightarrow> 'u llm_result_chunk" where
  "with_usage c u = c\<lparr>r_delta := (r_delta c)\<lparr>d_usage := Some u\<rparr>\<rparr>"

text \<open>The statements after the loop of the chat handler: the final chunk, or the exception.\<close>

definition chat_final_chunk ::
  "externals \<Rightarrow> 'u calc_response_usage \<Rightarrow> string \<Rightarrow> credentials \<Rightarrow> prompt_message list \<Rightarrow>
   prompt_message_tool list \<Rightarrow> 'u chat_state \<Rightarrow> error + 'u llm_result_chunk" where
  "chat_final_chunk ext calc model creds prompt_messages tools s =
     (case (if prompt_tokens s = 0
            then num_tokens_from_messages ext model prompt_messages tools
            else Inr (prompt_tokens s)) of
        Inl e \<Rightarrow> Inl e
      | Inr p \<Rightarrow>
          (case (if completion_tokens s = 0
                 then num_tokens_from_messages ext model
                        [AssistantPromptMessage (Text (full_assistant_content s)) None
                           (final_tool_calls s)] []
                 else Inr (completion_tokens s)) of
             Inl e \<Rightarrow> Inl e
           | Inr c \<Rightarrow> Inr (with_usage (final_chunk s) (calc model creds p c))))"

text \<open>
  \<^verbatim>\<open>_handle_chat_generate_stream_response\<close>: the chunks the generator yields and the
  exception that ends it, \<open>None\<close> when it is exhausted normally.
\<close>

definition handle_chat_generate_stream_response ::
  "externals \<Rightarrow> 'u calc_response_usage \<Rightarrow> string \<Rightarrow> credentials \<Rightarrow>
   chat_completion_chunk list \<Rightarrow> prompt_message list \<Rightarrow> prompt_message_tool list \<Rightarrow>
   'u llm_result_chunk list \<times> error option" where
  "handle_chat_generate_stream_response ext calc model creds response prompt_messages tools =
     (case run_stream (chat_step model prompt_messages)
             (initial_chat_state model prompt_messages) response of
        (outs, Inl e) \<Rightarrow> (outs, Some e)
      | (outs, Inr s) \<Rightarrow>
          (case chat_final_chunk ext calc model creds prompt_messages tools s of
             Inl e \<Rightarrow> (outs, Some e)
           | Inr c \<Rightarrow> (outs @ [c], None)))"

subsection \<open>Text-completion stream handler: \<^verbatim>\<open>_handle_generate_stream_response\<close>\<close>

record 'u generate_state = "'u usage_state" +
  full_text :: string

definition initial_generate_state :: "string \<Rightarrow> prompt_message list \<Rightarrow> 'u generate_state" where
  "initial_generate_state model prompt_messages =
     \<lparr>prompt_tokens = 0, completion_tokens = 0,
      final_chunk = initial_final_chunk model prompt_messages,
      full_text = []\<rparr>"

definition generate_step ::
  "prompt_message list \<Rightarrow> 'u generate_state \<Rightarrow> completion \<Rightarrow>
   error + ('u generate_state \<times> 'u llm_result_chunk list)" where
  "generate_step prompt_messages s chunk =
     (case co_choices chunk of
        [] \<Rightarrow>
          (case co_usage chunk of
             Some u \<Rightarrow> Inr (s\<lparr>prompt_tokens := cu_prompt_tokens u,
                              completion_tokens := cu_completion_tokens u\<rparr>, [])
           | None \<Rightarrow> Inr (s, []))
      | delta # others \<Rightarrow>
          if cc_finish_reason delta = None \<and> (cc_text delta = None \<or> cc_text delta = Some [])
          then Inr (s, [])
          else (let txt = or_empty (cc_text delta);
                    assistant_prompt_message = AssistantPromptMessage (Text txt) None [];
                    s1 = s\<lparr>full_text := full_text s @ txt\<rparr>
                in if cc_finish_reason delta \<noteq> None
                   then Inr (s1\<lparr>final_chunk :=
                                  result_chunk prompt_messages (co_model chunk)
                                    (co_system_fingerprint chunk) (cc_index delta)
                                    assistant_prompt_message (cc_finish_reason delta)\<rparr>, [])
                   else Inr (s1, [result_chunk prompt_messages (co_model chunk)
                                    (co_system_fingerprint chunk) (cc_index delta)
                                    assistant_prompt_message None])))"

text \<open>
  The statements after the loop: \<^verbatim>\<open>prompt_messages[0]\<close> raises \<^verbatim>\<open>IndexError\<close> on an
  empty list, and the assertion fails on a content that is not a string.
\<close>

definition generate_final_chunk ::
  "externals \<Rightarrow> 'u calc_response_usage \<Rightarrow> string \<Rightarrow> credentials \<Rightarrow> prompt_message list \<Rightarrow>
   'u generate_state \<Rightarrow> error + 'u llm_result_chunk" where
  "generate_final_chunk ext calc model creds prompt_messages s =
     (case (if prompt_tokens s = 0
            then (case prompt_messages of
                    [] \<Rightarrow> Inl IndexError
                  | m # ms \<Rightarrow>
                      (case message_content m of
                         Text c \<Rightarrow> num_tokens_from_string ext model c []
                       | _ \<Rightarrow> Inl AssertionError))
            else Inr (prompt_tokens s)) of
        Inl e \<Rightarrow> Inl e
      | Inr p \<Rightarrow>
          (case (if completion_tokens s = 0
                 then num_tokens_from_string ext model (full_text s) []
                 else Inr (completion_tokens s)) of
             Inl e \<Rightarrow> Inl e
           | Inr c \<Rightarrow> Inr (with_usage (final_chunk s) (calc model creds p c))))"

definition handle_generate_stream_response ::
  "externals \<Rightarrow> 'u calc_response_usage \<Rightarrow> string \<Rightarrow> credentials \<Rightarrow>
   completion list \<Rightarrow> prompt_message list \<Rightarrow> 'u llm_result_chunk list \<times> error option" where
  "handle_generate_stream_response ext calc model creds response prompt_messages =
     (case run_stream (generate_step prompt_messages)
             (initial_generate_state model prompt_messages) response of
        (outs, Inl e) \<Rightarrow> (outs, Some e)
      | (outs, Inr s) \<Rightarrow>
          (case generate_final_chunk ext calc model creds prompt_messages s of
             Inl e \<Rightarrow> (outs, Some e)
           | Inr c \<Rightarrow> (outs @ [c], None)))"

subsection \<open>Invocation dispatcher: \<^verbatim>\<open>_chat_generate\<close>\<close>

text \<open>
  The keyword arguments of the two transport calls. \<open>rq_model_parameters\<close> is the
  \<^verbatim>\<open>**model_parameters\<close> part; the other optional fields are the entries of
  \<^verbatim>\<open>extra_model_kwargs\<close>, \<open>None\<close> or \<open>False\<close> when the key is absent.
\<close>

record chat_request =
  rq_messages :: "message_dict list"
  rq_model :: string
  rq_stream :: bool
  rq_model_parameters :: "string \<rightharpoonup> json"
  rq_tools :: "prompt_message_tool list option"
  rq_stop :: "string list option"
  rq_user :: "string option"
  rq_stream_options :: bool

record responses_request =
  rr_model :: string
  rr_input :: string
  rr_params :: "string \<rightharpoonup> json"

datatype transport_call =
    ChatCompletionsCreate chat_request
  | ResponsesCreate responses_request

text \<open>
  The transport handle: \<^verbatim>\<open>client.chat.completions.create\<close> and
  \<^verbatim>\<open>client.responses.create\<close>, each returning the remote response or raising.
\<close>

record 'r client =
  chat_completions_create :: "chat_request \<Rightarrow> error + 'r"
  responses_create :: "responses_request \<Rightarrow> error + 'r"

text \<open>Where \<^verbatim>\<open>_chat_generate\<close> hands the response of the transport.\<close>

datatype 'r handled =
    ToStreamHandler 'r
  | ToBlockHandler 'r
  | O3ProResult 'r

text \<open>\<^verbatim>\<open>sep.join(xs)\<close>.\<close>

fun join :: "string \<Rightarrow> string list \<Rightarrow> string" where
  "join sep [] = []"
| "join sep [x] = x"
| "join sep (x # y # ys) = x @ sep @ join sep (y # ys)"

text \<open>
  The \<^verbatim>\<open>response_format\<close> block. \<open>json_loads\<close> is \<^verbatim>\<open>json.loads\<close> on a string, \<open>None\<close>
  when it raises; on a value that is not a string it raises \<^verbatim>\<open>TypeError\<close>. Either
  exception is caught and replaced by \<^verbatim>\<open>ValueError\<close>.
\<close>

definition transform_response_format ::
  "(string \<Rightarrow> json option) \<Rightarrow> (string \<rightharpoonup> json) \<Rightarrow> error + (string \<rightharpoonup> json)" where
  "transform_response_format json_loads model_parameters =
     (if (case model_parameters ''response_format'' of
            Some response_format \<Rightarrow> json_truthy response_format
          | None \<Rightarrow> False)
      then (if model_parameters ''response_format'' = Some (JStr ''json_schema'')
            then (case model_parameters ''json_schema'' of
                    None \<Rightarrow> Inl ValueError
                  | Some json_schema \<Rightarrow>
                      if \<not> json_truthy json_schema then Inl ValueError
                      else (case json_schema of
                              JStr js \<Rightarrow>
                                (case json_loads js of
                                   None \<Rightarrow> Inl ValueError
                                 | Some schema \<Rightarrow>
                                     Inr ((model_parameters(''json_schema'' := None))
                                            (''response_format'' \<mapsto>
                                               JObj [(''type'', JStr ''json_schema''),
                                                     (''json_schema'', schema)])))
                            | _ \<Rightarrow> Inl ValueError))
            else Inr (model_parameters
                        (''response_format'' \<mapsto>
                           JObj [(''type'', the (model_parameters ''response_format''))])))
      else if model_parameters ''json_schema'' \<noteq> None
           then Inr (model_parameters(''json_schema'' := None))
           else Inr model_parameters)"

text \<open>\<^verbatim>\<open>_clear_illegal_prompt_messages\<close>.\<close>

fun illegal_item_text :: "prompt_message_content \<Rightarrow> string" where
  "illegal_item_text (TextPromptMessageContent d) = d"
| "illegal_item_text (ImagePromptMessageContent d detail) = ''[IMAGE]''"
| "illegal_item_text _ = []"

fun is_user :: "prompt_message \<Rightarrow> bool" where
  "is_user (UserPromptMessage c n) = True"
| "is_user _ = False"

fun clear_user_content :: "prompt_message \<Rightarrow> prompt_message" where
  "clear_user_content (UserPromptMessage (Parts ps) n) =
     UserPromptMessage (Text (join [CHR 0x0A] (map illegal_item_text ps))) n"
| "clear_user_content m = m"

definition clear_illegal_prompt_messages ::
  "string \<Rightarrow> prompt_message list \<Rightarrow> prompt_message list" where
  "clear_illegal_prompt_messages model prompt_messages =
     (if model \<in> set [''gpt-4-turbo'', ''gpt-4-turbo-2024-04-09''] \<and>
         length (filter is_user prompt_messages) > 1
      then map clear_user_content prompt_messages
      else prompt_messages)"

text \<open>\<^verbatim>\<open>_chat_generate_o3_pro\<close>, up to the response of the transport.\<close>

fun o3_role :: "prompt_message \<Rightarrow> string option" where
  "o3_role (UserPromptMessage c n) = Some ''user''"
| "o3_role (AssistantPromptMessage c n tcs) = Some ''assistant''"
| "o3_role (ToolPromptMessage c n i) = Some ''tool''"
| "o3_role _ = None"

fun text_data :: "prompt_message_content \<Rightarrow> string list" where
  "text_data (TextPromptMessageContent d) = [d]"
| "text_data _ = []"

fun content_str :: "content \<Rightarrow> string" where
  "content_str NoContent = []"
| "content_str (Text c) = c"
| "content_str (Parts ps) = join [CHR 0x0A] (concat (map text_data ps))"

definition input_part :: "prompt_message \<Rightarrow> string list" where
  "input_part m =
     (case o3_role m of
        None \<Rightarrow> []
      | Some role \<Rightarrow>
          if content_str (message_content m) \<noteq> []
          then [role @ '': '' @ content_str (message_content m)] else [])"

definition chat_generate_o3_pro ::
  "'r client \<Rightarrow> string \<Rightarrow> prompt_message list \<Rightarrow> (string \<rightharpoonup> json) \<Rightarrow> string option \<Rightarrow>
   (error + 'r handled) \<times> transport_call list" where
  "chat_generate_o3_pro client model prompt_messages model_parameters user =
     (let final_input = join [CHR 0x0A, CHR 0x0A] (concat (map input_part prompt_messages));
          p1 = (case model_parameters ''max_completion_tokens'' of
                  Some v \<Rightarrow> (model_parameters(''max_completion_tokens'' := None))
                              (''max_output_tokens'' \<mapsto> v)
                | None \<Rightarrow> model_parameters);
          response_params = (if truthy user then p1(''user'' \<mapsto> JStr (or_empty user)) else p1);
          request = \<lparr>rr_model = model, rr_input = final_input, rr_params = response_params\<rparr>
      in if response_params ''model'' \<noteq> None \<or> response_params ''input'' \<noteq> None
         then (Inl TypeError, [])
         else (case responses_create client request of
                 Inl e \<Rightarrow> (Inl e, [ResponsesCreate request])
               | Inr resp_obj \<Rightarrow> (Inr (O3ProResult resp_obj), [ResponsesCreate request])))"

text \<open>
  \<^verbatim>\<open>_chat_generate\<close>, up to the response of the transport: the outcome and the calls
  made on the transport, in order. \<open>new_client\<close> is \<^verbatim>\<open>OpenAI(**self._to_credential_kwargs(credentials))\<close>,
  which builds the handle without a transport call. A keyword passed twice to
  \<^verbatim>\<open>create\<close> raises \<^verbatim>\<open>TypeError\<close> before the call is made.
\<close>

definition chat_generate ::
  "(credentials \<Rightarrow> error + 'r client) \<Rightarrow> (string \<Rightarrow> json option) \<Rightarrow> string \<Rightarrow> credentials \<Rightarrow>
   prompt_message list \<Rightarrow> (string \<rightharpoonup> json) \<Rightarrow> prompt_message_tool list \<Rightarrow> string list \<Rightarrow>
   bool \<Rightarrow> string option \<Rightarrow> (error + 'r handled) \<times> transport_call list" where
  "chat_generate new_client json_loads model creds prompt_messages model_parameters tools
     stop stream user =
     (case new_client creds of
        Inl e \<Rightarrow> (Inl e, [])
      | Inr client \<Rightarrow>
          (case transform_response_format json_loads model_parameters of
             Inl e \<Rightarrow> (Inl e, [])
           | Inr mp1 \<Rightarrow>
               (let mp2 = (if tools \<noteq> [] \<and> mp1 ''tool_choice'' = None
                           then mp1(''tool_choice'' \<mapsto> JStr ''auto'') else mp1);
                    o_series = startswith_any [''o1'', ''o3'', ''o4''] model;
                    mp3 = (if o_series
                           then (case mp2 ''max_tokens'' of
                                   Some v \<Rightarrow> (mp2(''max_completion_tokens'' \<mapsto> v))
                                               (''max_tokens'' := None)
                                 | None \<Rightarrow> mp2)
                           else mp2);
                    kw_tools = (if tools \<noteq> [] then Some tools else None);
                    kw_stop = (if stop \<noteq> [] \<and> \<not> o_series then Some stop else None);
                    kw_user = (if truthy user then user else None);
                    msgs = clear_illegal_prompt_messages model prompt_messages
                in if sublist ''o3-pro'' model
                   then chat_generate_o3_pro client model msgs mp3 user
                   else (case map_results convert_prompt_message_to_dict msgs of
                           Inl e \<Rightarrow> (Inl e, [])
                         | Inr messages \<Rightarrow>
                             (let request =
                                    \<lparr>rq_messages = messages, rq_model = model,
                                     rq_stream = stream, rq_model_parameters = mp3,
                                     rq_tools = kw_tools, rq_stop = kw_stop,
                                     rq_user = kw_user, rq_stream_options = stream\<rparr>
                              in if mp3 ''messages'' \<noteq> None \<or> mp3 ''model'' \<noteq> None \<or>
                                    mp3 ''stream'' \<noteq> None \<or>
                                    (kw_tools \<noteq> None \<and> mp3 ''tools'' \<noteq> None) \<or>
                                    (kw_stop \<noteq> None \<and> mp3 ''stop'' \<noteq> None) \<or>
                                    (kw_user \<noteq> None \<and> mp3 ''user'' \<noteq> None) \<or>
                                    (stream \<and> mp3 ''stream_options'' \<noteq> None)
                                 then (Inl TypeError, [])
                                 else (case chat_completions_create client request of
                                         Inl e \<Rightarrow> (Inl e, [ChatCompletionsCreate request])
                                       | Inr response \<Rightarrow>
                                           (Inr (if stream then ToStreamHandler response
                                                 else ToBlockHandler response),
                                            [ChatCompletionsCreate request])))))))"

subsection \<open>Notions used in the statements\<close>




text \<open>A chunk is usage-bearing when its usage is not \<^verbatim>\<open>None\<close>.\<close>

definition has_usage :: "'u llm_result_chunk \<Rightarrow> bool" where
  "has_usage c = (d_usage (r_delta c) \<noteq> None)"

text \<open>A chat fragment with one choice and no usage block, and the deltas of a legacy stream.\<close>

definition one_choice ::
  "string \<Rightarrow> string option \<Rightarrow> int \<Rightarrow> choice_delta \<Rightarrow> string option \<Rightarrow> chat_completion_chunk" where
  "one_choice m fp i d fr =
     \<lparr>ccc_choices = [\<lparr>ch_index = i, ch_delta = d, ch_finish_reason = fr\<rparr>],
      ccc_model = m, ccc_system_fingerprint = fp, ccc_usage = None\<rparr>"

definition function_call_delta :: "string option \<Rightarrow> string option \<Rightarrow> choice_delta" where
  "function_call_delta n a =
     \<lparr>cd_content = None, cd_tool_calls = None,
      cd_function_call = Some \<lparr>fc_name = n, fc_arguments = a\<rparr>\<rparr>"

definition content_delta :: "string option \<Rightarrow> choice_delta" where
  "content_delta c = \<lparr>cd_content = c, cd_tool_calls = None, cd_function_call = None\<rparr>"

definition tool_calls_delta :: "choice_delta_tool_call list \<Rightarrow> choice_delta" where
  "tool_calls_delta tcs = \<lparr>cd_content = None, cd_tool_calls = Some tcs, cd_function_call = None\<rparr>"

text \<open>
  Sample collaborators for the concrete instances below: a tokenizer that rejects a text
  holding \<^verbatim>\<open><|endoftext|>\<close> and otherwise gives one token to each of the words
  \<^verbatim>\<open>user\<close> and \<^verbatim>\<open>hi\<close> and one token per character to any other text, known under the
  names and name prefixes of the gpt-4, gpt-4o and gpt-3.5-turbo models, and a usage
  record that is the pair of counts.
\<close>

definition sample_encoding :: encoding where
  "sample_encoding txt =
     (if sublist ''<|endoftext|>'' txt then None
      else if txt = ''user'' then Some [882]
      else if txt = ''hi'' then Some [6151]
      else Some (map of_char txt))"

definition sample_externals :: externals where
  "sample_externals =
     \<lparr>encoding_for_model =
        (\<lambda>model. if model \<in> set [''gpt-4'', ''gpt-4o'', ''gpt-3.5-turbo''] \<or>
                      startswith_any [''gpt-4-'', ''gpt-4o-'', ''gpt-3.5-turbo-''] model
                   then Some sample_encoding else None),
      cl100k_base = sample_encoding,
      py_str = (\<lambda>v. [])\<rparr>"

definition sample_calc :: "(int \<times> int) calc_response_usage" where
  "sample_calc model creds p c = (p, c)"

text \<open>
  A sequence of chunks without usage, and a sequence whose last chunk is its only
  usage-bearing one.
\<close>

definition no_usage :: "'u llm_result_chunk list \<Rightarrow> bool" where
  "no_usage outs = list_all (\<lambda>c. \<not> has_usage c) outs"

definition usage_last :: "'u llm_result_chunk list \<Rightarrow> bool" where
  "usage_last outs = (outs \<noteq> [] \<and> has_usage (last outs) \<and> no_usage (butlast outs))"

text \<open>
  The texts of a wire record that the estimator encodes: the value of every key other
  than \<^verbatim>\<open>tool_calls\<close>, flattened and turned into a string.
\<close>

fun wire_text :: "string \<times> dict_value \<Rightarrow> string list" where
  "wire_text (key, v) =
     (if key = ''tool_calls'' then []
      else (case flatten_value v of Inl e \<Rightarrow> [] | Inr val \<Rightarrow> [str_value val]))"

definition wire_texts :: "message_dict \<Rightarrow> string list" where
  "wire_texts d = concat (map wire_text d)"

text \<open>
  A message the estimator can count with an encoding: the codec converts it, none of its
  tool calls has the type \<^verbatim>\<open>text\<close>, and the encoding accepts every text of its wire
  record.
\<close>

definition countable_message :: "encoding \<Rightarrow> prompt_message \<Rightarrow> bool" where
  "countable_message encoding m =
     (case convert_prompt_message_to_dict m of
        Inl e \<Rightarrow> False
      | Inr d \<Rightarrow>
          list_all (\<lambda>tc. tc_type tc \<noteq> ''text'') (message_tool_calls m) \<and>
          list_all (\<lambda>t. encoding t \<noteq> None) (wire_texts d))"

text \<open>
  A sample transport that answers every request, a client constructor that always
  succeeds, and a JSON parser that accepts the empty object only.
\<close>

definition sample_client :: "string client" where
  "sample_client =
     \<lparr>chat_completions_create = (\<lambda>request. Inr ''response''),
      responses_create = (\<lambda>request. Inr ''response'')\<rparr>"

definition sample_new_client :: "credentials \<Rightarrow> error + string client" where
  "sample_new_client creds = Inr sample_client"

definition sample_json_loads :: "string \<Rightarrow> json option" where
  "sample_json_loads js = (if js = ''{}'' then Some (JObj []) else None)"

section \<open>Properties\<close>

subsection \<open>Auxiliary facts\<close>




lemma has_finish_reason_None [simp]: "has_finish_reason model None = False"
  by (simp add: has_finish_reason_def)






subsection \<open>Tool-call aggregation\<close>





subsection \<open>Message codec\<close>



subsection \<open>Fragments without choices\<close>

text \<open>
  Claim C6. A fragment with zero choices yields no chunk in either stream handler. If
  it carries a usage block, the prompt-token and completion-token counters are set from
  it and every other variable of the aggregation (text accumulator, tool-call map,
  legacy buffer, collected tool calls, held final chunk) keeps its value; without a
  usage block the state is unchanged.
\<close>

theorem zero_choice_fragment:
  "(ccc_choices chunk = [] \<longrightarrow>
      chat_step model prompt_messages s chunk =
        Inr (case ccc_usage chunk of
               Some u \<Rightarrow> s\<lparr>prompt_tokens := cu_prompt_tokens u,
                             completion_tokens := cu_completion_tokens u\<rparr>
             | None \<Rightarrow> s, [])) \<and>
   (co_choices fragment = [] \<longrightarrow>
      generate_step prompt_messages g fragment =
        Inr (case co_usage fragment of
               Some u \<Rightarrow> g\<lparr>prompt_tokens := cu_prompt_tokens u,
                             completion_tokens := cu_completion_tokens u\<rparr>
             | None \<Rightarrow> g, []))"
  by (auto simp: chat_step_def generate_step_def split: option.splits)

text \<open>An instance: the usage trailer of a chat stream, with 7 and 5 tokens.\<close>

theorem zero_choice_fragment_witness:
  "chat_step ''gpt-4'' [] (initial_chat_state ''gpt-4'' [] :: (int \<times> int) chat_state)
     \<lparr>ccc_choices = [], ccc_model = ''gpt-4'', ccc_system_fingerprint = None,
      ccc_usage = Some \<lparr>cu_prompt_tokens = 7, cu_completion_tokens = 5\<rparr>\<rparr>
   = Inr ((initial_chat_state ''gpt-4'' [])\<lparr>prompt_tokens := 7, completion_tokens := 5\<rparr>, [])"
  using zero_choice_fragment
          [of "\<lparr>ccc_choices = [], ccc_model = ''gpt-4'', ccc_system_fingerprint = None,
                ccc_usage = Some \<lparr>cu_prompt_tokens = 7, cu_completion_tokens = 5\<rparr>\<rparr>"
              "''gpt-4''" "[]" "initial_chat_state ''gpt-4'' [] :: (int \<times> int) chat_state",
           THEN conjunct1]
  by simp

subsection \<open>Invariants of the stream handlers\<close>

lemma legacy_final_chunk:
  "legacy_function_call has_fr s fc = Inr (Suspend s') \<Longrightarrow> final_chunk s' = final_chunk s"
  "legacy_function_call has_fr s fc = Inr (Resume s' fc') \<Longrightarrow> final_chunk s' = final_chunk s"
  by (auto simp: legacy_function_call_def Let_def split: option.splits if_splits)

lemma emit_step_chunks:
  assumes "emit_step pm has_fr chunk delta s tcs = Inr (s', outs)"
      and "\<not> has_usage (final_chunk s) \<and> message_tool_calls (d_message (r_delta (final_chunk s))) = []"
  shows "(\<not> has_usage (final_chunk s') \<and>
          message_tool_calls (d_message (r_delta (final_chunk s'))) = []) \<and>
         (\<forall>c\<in>set outs. \<not> has_usage c \<and>
            (message_tool_calls (d_message (r_delta c)) = [] \<or>
             d_finish_reason (r_delta c) = Some ''tool_calls''))"
  using assms
  by (auto simp: emit_step_def Let_def result_chunk_def has_usage_def split: sum.splits if_splits)

lemma chat_step_chunks:
  assumes "chat_step model pm s chunk = Inr (s', outs)"
      and "\<not> has_usage (final_chunk s) \<and> message_tool_calls (d_message (r_delta (final_chunk s))) = []"
  shows "(\<not> has_usage (final_chunk s') \<and>
          message_tool_calls (d_message (r_delta (final_chunk s'))) = []) \<and>
         (\<forall>c\<in>set outs. \<not> has_usage c \<and>
            (message_tool_calls (d_message (r_delta c)) = [] \<or>
             d_finish_reason (r_delta c) = Some ''tool_calls''))"
proof (cases "ccc_choices chunk")
  case Nil
  with assms show ?thesis
    by (auto simp: chat_step_def split: option.splits)
next
  case (Cons delta others)
  show ?thesis
  proof (cases "chat_step model pm s chunk = Inr (s, []) \<and> s' = s \<and> outs = []")
    case True
    with assms show ?thesis by simp
  next
    case False
    with assms(1) Cons consider
      (tools) tcs where "emit_step pm (has_finish_reason model (ch_finish_reason delta)) chunk delta s tcs = Inr (s', outs)"
    | (suspend) fc where "legacy_function_call (has_finish_reason model (ch_finish_reason delta)) s fc = Inr (Suspend s')" "outs = []"
    | (resume) s1 fc fc' tcs where "legacy_function_call (has_finish_reason model (ch_finish_reason delta)) s fc = Inr (Resume s1 fc')"
         "emit_step pm (has_finish_reason model (ch_finish_reason delta)) chunk delta s1 tcs = Inr (s', outs)"
      by (auto simp: chat_step_def Let_def split: if_splits option.splits list.splits sum.splits legacy.splits)
    then show ?thesis
    proof cases
      case tools
      from emit_step_chunks[OF tools assms(2)] show ?thesis .
    next
      case suspend
      with legacy_final_chunk(1)[OF suspend(1)] assms(2) show ?thesis by simp
    next
      case resume
      from legacy_final_chunk(2)[OF resume(1)] assms(2)
      have "\<not> has_usage (final_chunk s1) \<and> message_tool_calls (d_message (r_delta (final_chunk s1))) = []"
        by simp
      from emit_step_chunks[OF resume(2) this] show ?thesis .
    qed
  qed
qed

lemma generate_step_chunks:
  assumes "generate_step pm s chunk = Inr (s', outs)"
      and "\<not> has_usage (final_chunk s)"
  shows "\<not> has_usage (final_chunk s') \<and> (\<forall>c\<in>set outs. \<not> has_usage c)"
  using assms
  by (auto simp: generate_step_def Let_def result_chunk_def has_usage_def
           split: list.splits option.splits if_splits)

lemma initial_final_chunk_plain:
  "\<not> has_usage (initial_final_chunk model pm) \<and>
   message_tool_calls (d_message (r_delta (initial_final_chunk model pm))) = []"
  by (simp add: initial_final_chunk_def has_usage_def)

lemma with_usage_props:
  "has_usage (with_usage c u)"
  "d_message (r_delta (with_usage c u)) = d_message (r_delta c)"
  "d_finish_reason (r_delta (with_usage c u)) = d_finish_reason (r_delta c)"
  "d_usage (r_delta (with_usage c u)) = Some u"
  by (simp_all add: with_usage_def has_usage_def)

lemma chat_run_chunks_from:
  assumes "\<not> has_usage (final_chunk s) \<and>
           message_tool_calls (d_message (r_delta (final_chunk s))) = []"
  shows "(\<forall>c\<in>set (fst (run_stream (chat_step model pm) s fs)).
            \<not> has_usage c \<and>
            (message_tool_calls (d_message (r_delta c)) = [] \<or>
             d_finish_reason (r_delta c) = Some ''tool_calls'')) \<and>
         (\<forall>s'. snd (run_stream (chat_step model pm) s fs) = Inr s' \<longrightarrow>
            \<not> has_usage (final_chunk s') \<and>
            message_tool_calls (d_message (r_delta (final_chunk s'))) = [])"
  using assms
proof (induction fs arbitrary: s)
  case Nil
  then show ?case by simp
next
  case (Cons f fs)
  show ?case
  proof (cases "chat_step model pm s f")
    case (Inl e)
    then show ?thesis by simp
  next
    case (Inr p)
    obtain s1 out where p: "p = (s1, out)" by (cases p)
    from chat_step_chunks[OF Inr[unfolded p] Cons.prems]
    have i: "\<not> has_usage (final_chunk s1) \<and>
             message_tool_calls (d_message (r_delta (final_chunk s1))) = []"
      and q: "\<forall>c\<in>set out. \<not> has_usage c \<and>
            (message_tool_calls (d_message (r_delta c)) = [] \<or>
             d_finish_reason (r_delta c) = Some ''tool_calls'')"
      by auto
    from Cons.IH[OF i] Inr p q show ?thesis
      by (auto split: prod.splits)
  qed
qed

lemma chat_run_chunks:
  assumes "run_stream (chat_step model pm) (initial_chat_state model pm :: 'u chat_state) fs
             = (outs, r)"
  shows "(\<forall>c\<in>set outs.
            \<not> has_usage c \<and>
            (message_tool_calls (d_message (r_delta c)) = [] \<or>
             d_finish_reason (r_delta c) = Some ''tool_calls'')) \<and>
         (\<forall>s'. r = Inr s' \<longrightarrow>
            \<not> has_usage (final_chunk s') \<and>
            message_tool_calls (d_message (r_delta (final_chunk s'))) = [])"
proof -
  have init: "\<not> has_usage (final_chunk (initial_chat_state model pm :: 'u chat_state)) \<and>
     message_tool_calls (d_message (r_delta (final_chunk (initial_chat_state model pm :: 'u chat_state)))) = []"
    by (simp add: initial_chat_state_def initial_final_chunk_plain)
  from chat_run_chunks_from[OF init, of model pm fs] assms show ?thesis by simp
qed

lemma generate_run_chunks_from:
  assumes "\<not> has_usage (final_chunk s)"
  shows "(\<forall>c\<in>set (fst (run_stream (generate_step pm) s fs)). \<not> has_usage c) \<and>
         (\<forall>s'. snd (run_stream (generate_step pm) s fs) = Inr s' \<longrightarrow>
            \<not> has_usage (final_chunk s'))"
  using assms
proof (induction fs arbitrary: s)
  case Nil
  then show ?case by simp
next
  case (Cons f fs)
  show ?case
  proof (cases "generate_step pm s f")
    case (Inl e)
    then show ?thesis by simp
  next
    case (Inr p)
    obtain s1 out where p: "p = (s1, out)" by (cases p)
    from generate_step_chunks[OF Inr[unfolded p] Cons.prems]
    have i: "\<not> has_usage (final_chunk s1)" and q: "\<forall>c\<in>set out. \<not> has_usage c"
      by auto
    from Cons.IH[OF i] Inr p q show ?thesis
      by (auto split: prod.splits)
  qed
qed

lemma generate_run_chunks:
  assumes "run_stream (generate_step pm) (initial_generate_state model pm :: 'u generate_state) fs
             = (outs, r)"
  shows "(\<forall>c\<in>set outs. \<not> has_usage c) \<and>
         (\<forall>s'. r = Inr s' \<longrightarrow> \<not> has_usage (final_chunk s'))"
proof -
  have init: "\<not> has_usage (final_chunk (initial_generate_state model pm :: 'u generate_state))"
    by (simp add: initial_generate_state_def initial_final_chunk_plain)
  from generate_run_chunks_from[OF init, of pm fs] assms show ?thesis by simp
qed

lemma generate_step_total: "\<exists>s' outs. generate_step pm s chunk = Inr (s', outs)"
  by (auto simp: generate_step_def Let_def split: list.splits option.splits)

lemma run_stream_total:
  assumes "\<And>s f. \<exists>s' outs. step s f = Inr (s', outs)"
  shows "\<exists>outs s'. run_stream step s fs = (outs, Inr s')"
proof (induction fs arbitrary: s)
  case Nil
  then show ?case by simp
next
  case (Cons f fs)
  from assms obtain s1 out where "step s f = Inr (s1, out)" by blast
  moreover from Cons.IH obtain outs s' where "run_stream step s1 fs = (outs, Inr s')" by blast
  ultimately show ?case by simp
qed

lemma num_tokens_from_string_ntok:
  "num_tokens_from_string ext model t [] = ntok (resolve_encoding ext model) t"
  by (simp add: num_tokens_from_string_def sum_all_def Let_def split: sum.splits)

lemma generate_run_total:
  "\<exists>cs s. run_stream (generate_step pm) s0 fs = (cs, Inr s)"
  by (rule run_stream_total) (rule generate_step_total)

lemma generate_handler_completes_iff:
  "snd (handle_generate_stream_response ext calc model creds response pm) = None \<longleftrightarrow>
   (\<exists>cs s. run_stream (generate_step pm) (initial_generate_state model pm :: 'u generate_state)
              response = (cs, Inr s) \<and>
      (prompt_tokens s \<noteq> 0 \<or>
       (\<exists>m ms t p. pm = m # ms \<and> message_content m = Text t \<and>
                   num_tokens_from_string ext model t [] = Inr p)) \<and>
      (completion_tokens s \<noteq> 0 \<or>
       (\<exists>c. num_tokens_from_string ext model (full_text s) [] = Inr c)))"
  for calc :: "'u calc_response_usage"
proof -
  from generate_run_total obtain cs s where
    run: "run_stream (generate_step pm) (initial_generate_state model pm :: 'u generate_state)
            response = (cs, Inr s)"
    by blast
  then show ?thesis
    by (auto simp: handle_generate_stream_response_def generate_final_chunk_def
             split: sum.splits if_splits list.splits content.splits)
qed

lemma usage_last_snoc: "no_usage cs \<Longrightarrow> has_usage c \<Longrightarrow> usage_last (cs @ [c])"
  by (simp add: usage_last_def)

lemma chat_handler_usage:
  assumes "handle_chat_generate_stream_response ext calc model creds response pm tools = (outs, err)"
  shows "if err = None then usage_last outs else no_usage outs"
proof -
  obtain cs r where run: "run_stream (chat_step model pm) (initial_chat_state model pm :: 'a chat_state) response = (cs, r)"
    by (cases "run_stream (chat_step model pm) (initial_chat_state model pm :: 'a chat_state) response")
  from chat_run_chunks[OF run] have cs: "no_usage cs"
    by (simp add: no_usage_def list_all_iff)
  show ?thesis
  proof (cases r)
    case (Inl e)
    with assms run cs show ?thesis
      by (auto simp: handle_chat_generate_stream_response_def)
  next
    case (Inr s)
    with assms run cs show ?thesis
      by (auto simp: handle_chat_generate_stream_response_def chat_final_chunk_def
                     usage_last_snoc with_usage_props
               split: sum.splits if_splits)
  qed
qed

lemma generate_handler_usage:
  assumes "handle_generate_stream_response ext calc model creds response pm = (outs, err)"
  shows "if err = None then usage_last outs else no_usage outs"
proof -
  obtain cs r where run: "run_stream (generate_step pm) (initial_generate_state model pm :: 'a generate_state) response = (cs, r)"
    by (cases "run_stream (generate_step pm) (initial_generate_state model pm :: 'a generate_state) response")
  from generate_run_chunks[OF run] have cs: "no_usage cs"
    by (simp add: no_usage_def list_all_iff)
  show ?thesis
  proof (cases r)
    case (Inl e)
    with assms run cs show ?thesis
      by (auto simp: handle_generate_stream_response_def)
  next
    case (Inr s)
    with assms run cs show ?thesis
      by (auto simp: handle_generate_stream_response_def generate_final_chunk_def
                     usage_last_snoc with_usage_props
               split: sum.splits if_splits list.splits content.splits)
  qed
qed

lemma chat_handler_completes_iff:
  "snd (handle_chat_generate_stream_response ext calc model creds response pm tools) = None \<longleftrightarrow>
   (\<exists>cs s. run_stream (chat_step model pm) (initial_chat_state model pm :: 'u chat_state) response
              = (cs, Inr s) \<and>
      (prompt_tokens s \<noteq> 0 \<or> (\<exists>p. num_tokens_from_messages ext model pm tools = Inr p)) \<and>
      (completion_tokens s \<noteq> 0 \<or>
       (\<exists>c. num_tokens_from_messages ext model
               [AssistantPromptMessage (Text (full_assistant_content s)) None (final_tool_calls s)] []
             = Inr c)))"
  for calc :: "'u calc_response_usage"
proof -
  obtain cs r where run: "run_stream (chat_step model pm) (initial_chat_state model pm :: 'u chat_state) response = (cs, r)"
    by (cases "run_stream (chat_step model pm) (initial_chat_state model pm :: 'u chat_state) response")
  show ?thesis
  proof (cases r)
    case (Inl e)
    with run show ?thesis by (simp add: handle_chat_generate_stream_response_def)
  next
    case (Inr s)
    with run show ?thesis
      by (auto simp: handle_chat_generate_stream_response_def chat_final_chunk_def
               split: sum.splits if_splits)
  qed
qed

lemma legacy_counters:
  "legacy_function_call has_fr s fc = Inr (Suspend s') \<Longrightarrow>
     prompt_tokens s' = prompt_tokens s \<and> completion_tokens s' = completion_tokens s"
  "legacy_function_call has_fr s fc = Inr (Resume s' fc') \<Longrightarrow>
     prompt_tokens s' = prompt_tokens s \<and> completion_tokens s' = completion_tokens s"
  by (auto simp: legacy_function_call_def Let_def split: option.splits if_splits)

lemma emit_step_counters:
  "emit_step pm has_fr chunk delta s tcs = Inr (s', outs) \<Longrightarrow>
     prompt_tokens s' = prompt_tokens s \<and> completion_tokens s' = completion_tokens s"
  by (auto simp: emit_step_def Let_def split: sum.splits if_splits)

lemma chat_step_counters:
  assumes "chat_step model pm s chunk = Inr (s', outs)" and "ccc_usage chunk = None"
  shows "prompt_tokens s' = prompt_tokens s \<and> completion_tokens s' = completion_tokens s"
proof (cases "ccc_choices chunk")
  case Nil
  with assms show ?thesis by (auto simp: chat_step_def)
next
  case (Cons delta others)
  show ?thesis
  proof (cases "s' = s")
    case True
    then show ?thesis by simp
  next
    case False
    with assms(1) Cons consider
      (tools) tcs where "emit_step pm (has_finish_reason model (ch_finish_reason delta)) chunk delta s tcs = Inr (s', outs)"
    | (suspend) fc where "legacy_function_call (has_finish_reason model (ch_finish_reason delta)) s fc = Inr (Suspend s')"
    | (resume) s1 fc fc' tcs where "legacy_function_call (has_finish_reason model (ch_finish_reason delta)) s fc = Inr (Resume s1 fc')"
         "emit_step pm (has_finish_reason model (ch_finish_reason delta)) chunk delta s1 tcs = Inr (s', outs)"
      by (auto simp: chat_step_def Let_def split: if_splits option.splits list.splits sum.splits legacy.splits)
    then show ?thesis
    proof cases
      case tools
      then show ?thesis by (rule emit_step_counters)
    next
      case suspend
      then show ?thesis by (rule legacy_counters(1))
    next
      case resume
      from legacy_counters(2)[OF resume(1)] emit_step_counters[OF resume(2)]
      show ?thesis by simp
    qed
  qed
qed

lemma generate_step_counters:
  assumes "generate_step pm s chunk = Inr (s', outs)" and "co_usage chunk = None"
  shows "prompt_tokens s' = prompt_tokens s \<and> completion_tokens s' = completion_tokens s"
  using assms
  by (auto simp: generate_step_def Let_def split: list.splits if_splits)

lemma chat_run_counters:
  assumes "\<forall>f\<in>set fs. ccc_usage f = None"
      and "run_stream (chat_step model pm) s fs = (outs, Inr s')"
  shows "prompt_tokens s' = prompt_tokens s \<and> completion_tokens s' = completion_tokens s"
  using assms
proof (induction fs arbitrary: s outs)
  case Nil
  then show ?case by simp
next
  case (Cons f fs)
  from Cons.prems(2) obtain s1 out outs1 where
    st: "chat_step model pm s f = Inr (s1, out)"
    and rest: "run_stream (chat_step model pm) s1 fs = (outs1, Inr s')"
    by (auto split: sum.splits prod.splits)
  from chat_step_counters[OF st] Cons.prems(1) Cons.IH[OF _ rest] show ?case by simp
qed

lemma generate_run_counters:
  assumes "\<forall>f\<in>set fs. co_usage f = None"
      and "run_stream (generate_step pm) s fs = (outs, Inr s')"
  shows "prompt_tokens s' = prompt_tokens s \<and> completion_tokens s' = completion_tokens s"
  using assms
proof (induction fs arbitrary: s outs)
  case Nil
  then show ?case by simp
next
  case (Cons f fs)
  from Cons.prems(2) obtain s1 out outs1 where
    st: "generate_step pm s f = Inr (s1, out)"
    and rest: "run_stream (generate_step pm) s1 fs = (outs1, Inr s')"
    by (auto split: sum.splits prod.splits)
  from generate_step_counters[OF st] Cons.prems(1) Cons.IH[OF _ rest] show ?case by simp
qed

lemma chat_fallback_usage:
  fixes calc :: "'u calc_response_usage"
  assumes "\<forall>f\<in>set response. ccc_usage f = None"
      and "handle_chat_generate_stream_response ext calc model creds response pm tools = (outs, None)"
  shows "\<exists>cs s p c.
           run_stream (chat_step model pm) (initial_chat_state model pm :: 'u chat_state) response
             = (cs, Inr s) \<and>
           num_tokens_from_messages ext model pm tools = Inr p \<and>
           num_tokens_from_messages ext model
             [AssistantPromptMessage (Text (full_assistant_content s)) None (final_tool_calls s)] []
             = Inr c \<and>
           outs = cs @ [with_usage (final_chunk s) (calc model creds p c)]"
proof -
  obtain cs r where run: "run_stream (chat_step model pm) (initial_chat_state model pm :: 'u chat_state) response = (cs, r)"
    by (cases "run_stream (chat_step model pm) (initial_chat_state model pm :: 'u chat_state) response")
  show ?thesis
  proof (cases r)
    case (Inl e)
    with run assms(2) show ?thesis by (auto simp: handle_chat_generate_stream_response_def)
  next
    case (Inr s)
    from chat_run_counters[OF assms(1) run[unfolded Inr]]
    have z: "prompt_tokens s = 0" "completion_tokens s = 0"
      by (simp_all add: initial_chat_state_def)
    with run Inr assms(2) show ?thesis
      by (auto simp: handle_chat_generate_stream_response_def chat_final_chunk_def
               split: sum.splits)
  qed
qed

lemma generate_fallback_usage:
  fixes calc :: "'u calc_response_usage"
  assumes "\<forall>f\<in>set response. co_usage f = None"
      and "handle_generate_stream_response ext calc model creds response pm = (outs, None)"
  shows "\<exists>cs s m ms t p c.
           run_stream (generate_step pm) (initial_generate_state model pm :: 'u generate_state)
             response = (cs, Inr s) \<and>
           pm = m # ms \<and> message_content m = Text t \<and>
           num_tokens_from_string ext model t [] = Inr p \<and>
           num_tokens_from_string ext model (full_text s) [] = Inr c \<and>
           outs = cs @ [with_usage (final_chunk s) (calc model creds p c)]"
proof -
  from generate_run_total obtain cs s where
    run: "run_stream (generate_step pm) (initial_generate_state model pm :: 'u generate_state)
            response = (cs, Inr s)"
    by blast
  from generate_run_counters[OF assms(1) run]
  have z: "prompt_tokens s = 0" "completion_tokens s = 0"
    by (simp_all add: initial_generate_state_def)
  with run assms(2) show ?thesis
    by (auto simp: handle_generate_stream_response_def generate_final_chunk_def
             split: sum.splits list.splits content.splits)
qed

subsection \<open>The usage-bearing chunk\<close>

text \<open>
  Claim C1, for the runs that end without an exception. Whenever a streaming handler
  (chat or text completion) runs to its end without raising, the chunks it yields
  contain exactly one usage-bearing chunk and that chunk is the last; when it raises, no
  chunk it has yielded bears usage. The chat handler runs to its end exactly when no
  fragment step raises and, for each counter left at zero, the fallback estimator returns
  a count. The loop of the text handler never raises, and the text handler runs to its
  end exactly when, for each counter left at zero, the string estimator returns a count:
  for the prompt counter there must be a first prompt message with string content, and
  the tokenizer must accept the text it is given. When no fragment carries a usage block
  and the handler runs to its end, the usage of the last chunk is computed from the
  fallback estimates over the prompt and over the accumulated output.
\<close>

theorem usage_chunk_last_when_completed:
  fixes calc :: "'u calc_response_usage"
  shows
  "(\<forall>outs err.
      handle_chat_generate_stream_response ext calc model creds response pm tools = (outs, err) \<longrightarrow>
      (if err = None then usage_last outs else no_usage outs)) \<and>
   (\<forall>outs err.
      handle_generate_stream_response ext calc model creds completions pm = (outs, err) \<longrightarrow>
      (if err = None then usage_last outs else no_usage outs)) \<and>
   (snd (handle_chat_generate_stream_response ext calc model creds response pm tools) = None \<longleftrightarrow>
      (\<exists>cs s. run_stream (chat_step model pm) (initial_chat_state model pm :: 'u chat_state) response
                 = (cs, Inr s) \<and>
         (prompt_tokens s \<noteq> 0 \<or> (\<exists>p. num_tokens_from_messages ext model pm tools = Inr p)) \<and>
         (completion_tokens s \<noteq> 0 \<or>
          (\<exists>c. num_tokens_from_messages ext model
                  [AssistantPromptMessage (Text (full_assistant_content s)) None
                     (final_tool_calls s)] []
                = Inr c)))) \<and>
   (snd (handle_generate_stream_response ext calc model creds completions pm) = None \<longleftrightarrow>
      (\<exists>cs s. run_stream (generate_step pm) (initial_generate_state model pm :: 'u generate_state)
                 completions = (cs, Inr s) \<and>
         (prompt_tokens s \<noteq> 0 \<or>
          (\<exists>m ms t p. pm = m # ms \<and> message_content m = Text t \<and>
                      num_tokens_from_string ext model t [] = Inr p)) \<and>
         (completion_tokens s \<noteq> 0 \<or>
          (\<exists>c. num_tokens_from_string ext model (full_text s) [] = Inr c)))) \<and>
   (\<forall>outs.
      (\<forall>f\<in>set response. ccc_usage f = None) \<and>
      handle_chat_generate_stream_response ext calc model creds response pm tools = (outs, None) \<longrightarrow>
      (\<exists>cs s p c.
         run_stream (chat_step model pm) (initial_chat_state model pm :: 'u chat_state) response
           = (cs, Inr s) \<and>
         num_tokens_from_messages ext model pm tools = Inr p \<and>
         num_tokens_from_messages ext model
           [AssistantPromptMessage (Text (full_assistant_content s)) None (final_tool_calls s)] []
           = Inr c \<and>
         outs = cs @ [with_usage (final_chunk s) (calc model creds p c)])) \<and>
   (\<forall>outs.
      (\<forall>f\<in>set completions. co_usage f = None) \<and>
      handle_generate_stream_response ext calc model creds completions pm = (outs, None) \<longrightarrow>
      (\<exists>cs s m ms t p c.
         run_stream (generate_step pm) (initial_generate_state model pm :: 'u generate_state)
           completions = (cs, Inr s) \<and>
         pm = m # ms \<and> message_content m = Text t \<and>
         num_tokens_from_string ext model t [] = Inr p \<and>
         num_tokens_from_string ext model (full_text s) [] = Inr c \<and>
         outs = cs @ [with_usage (final_chunk s) (calc model creds p c)]))"
proof -
  have chat: "\<forall>outs err.
      handle_chat_generate_stream_response ext calc model creds response pm tools = (outs, err) \<longrightarrow>
      (if err = None then usage_last outs else no_usage outs)"
    by (intro allI impI) (rule chat_handler_usage)
  have gen: "\<forall>outs err.
      handle_generate_stream_response ext calc model creds completions pm = (outs, err) \<longrightarrow>
      (if err = None then usage_last outs else no_usage outs)"
    by (intro allI impI) (rule generate_handler_usage)
  have chat_ends: "snd (handle_chat_generate_stream_response ext calc model creds response pm tools) = None \<longleftrightarrow>
      (\<exists>cs s. run_stream (chat_step model pm) (initial_chat_state model pm :: 'u chat_state) response
                 = (cs, Inr s) \<and>
         (prompt_tokens s \<noteq> 0 \<or> (\<exists>p. num_tokens_from_messages ext model pm tools = Inr p)) \<and>
         (completion_tokens s \<noteq> 0 \<or>
          (\<exists>c. num_tokens_from_messages ext model
                  [AssistantPromptMessage (Text (full_assistant_content s)) None
                     (final_tool_calls s)] []
                = Inr c)))"
    by (rule chat_handler_completes_iff)
  have gen_ends: "snd (handle_generate_stream_response ext calc model creds completions pm) = None \<longleftrightarrow>
      (\<exists>cs s. run_stream (generate_step pm) (initial_generate_state model pm :: 'u generate_state)
                 completions = (cs, Inr s) \<and>
         (prompt_tokens s \<noteq> 0 \<or>
          (\<exists>m ms t p. pm = m # ms \<and> message_content m = Text t \<and>
                      num_tokens_from_string ext model t [] = Inr p)) \<and>
         (completion_tokens s \<noteq> 0 \<or>
          (\<exists>c. num_tokens_from_string ext model (full_text s) [] = Inr c)))"
    by (rule generate_handler_completes_iff)
  have chat_fallback: "\<forall>outs.
      (\<forall>f\<in>set response. ccc_usage f = None) \<and>
      handle_chat_generate_stream_response ext calc model creds response pm tools = (outs, None) \<longrightarrow>
      (\<exists>cs s p c.
         run_stream (chat_step model pm) (initial_chat_state model pm :: 'u chat_state) response
           = (cs, Inr s) \<and>
         num_tokens_from_messages ext model pm tools = Inr p \<and>
         num_tokens_from_messages ext model
           [AssistantPromptMessage (Text (full_assistant_content s)) None (final_tool_calls s)] []
           = Inr c \<and>
         outs = cs @ [with_usage (final_chunk s) (calc model creds p c)])"
    by (intro allI impI, elim conjE) (rule chat_fallback_usage)
  have gen_fallback: "\<forall>outs.
      (\<forall>f\<in>set completions. co_usage f = None) \<and>
      handle_generate_stream_response ext calc model creds completions pm = (outs, None) \<longrightarrow>
      (\<exists>cs s m ms t p c.
         run_stream (generate_step pm) (initial_generate_state model pm :: 'u generate_state)
           completions = (cs, Inr s) \<and>
         pm = m # ms \<and> message_content m = Text t \<and>
         num_tokens_from_string ext model t [] = Inr p \<and>
         num_tokens_from_string ext model (full_text s) [] = Inr c \<and>
         outs = cs @ [with_usage (final_chunk s) (calc model creds p c)])"
    by (intro allI impI, elim conjE) (rule generate_fallback_usage)
  show ?thesis
    by (rule conjI[OF chat conjI[OF gen conjI[OF chat_ends conjI[OF gen_ends
          conjI[OF chat_fallback gen_fallback]]]]])
qed

text \<open>
  An instance: a \<^verbatim>\<open>gpt-4\<close> stream of a content fragment and a stop fragment, without
  any usage block. The handler yields the content chunk and then the final chunk, whose
  usage holds the two fallback estimates.
\<close>

theorem usage_chunk_last_when_completed_witness:
  "handle_chat_generate_stream_response sample_externals sample_calc ''gpt-4'' []
     [one_choice ''gpt-4'' None 0 (content_delta (Some ''hi'')) None,
      one_choice ''gpt-4'' None 0 (content_delta None) (Some ''stop'')]
     [UserPromptMessage (Text ''hi'') None] []
   = ([result_chunk [UserPromptMessage (Text ''hi'') None] ''gpt-4'' None 0
         (AssistantPromptMessage (Text ''hi'') None []) None,
       with_usage (result_chunk [UserPromptMessage (Text ''hi'') None] ''gpt-4'' None 0
         (AssistantPromptMessage (Text []) None []) (Some ''stop'')) (8, 16)],
      None) \<and>
   usage_last
     [result_chunk [UserPromptMessage (Text ''hi'') None] ''gpt-4'' None 0
         (AssistantPromptMessage (Text ''hi'') None []) None,
      with_usage (result_chunk [UserPromptMessage (Text ''hi'') None] ''gpt-4'' None 0
         (AssistantPromptMessage (Text []) None []) (Some ''stop'')) (8 :: int, 16 :: int)]"
proof -
  have run: "handle_chat_generate_stream_response sample_externals sample_calc ''gpt-4'' []
     [one_choice ''gpt-4'' None 0 (content_delta (Some ''hi'')) None,
      one_choice ''gpt-4'' None 0 (content_delta None) (Some ''stop'')]
     [UserPromptMessage (Text ''hi'') None] []
   = ([result_chunk [UserPromptMessage (Text ''hi'') None] ''gpt-4'' None 0
         (AssistantPromptMessage (Text ''hi'') None []) None,
       with_usage (result_chunk [UserPromptMessage (Text ''hi'') None] ''gpt-4'' None 0
         (AssistantPromptMessage (Text []) None []) (Some ''stop'')) (8, 16)],
      None)"
    by (simp add: handle_chat_generate_stream_response_def chat_step_def one_choice_def
        content_delta_def legacy_function_call_def emit_step_def Let_def
        initial_chat_state_def has_finish_reason_def startswith_any_def
        chat_final_chunk_def num_tokens_from_messages_def estimation_model_def tokens_per_def
        convert_prompt_message_to_dict_def sum_all_def message_tokens_def item_tokens_def
        resolve_encoding_def sample_externals_def sample_encoding_def sample_calc_def ntok_def
        sublist_Cons_right)
  from usage_chunk_last_when_completed[THEN conjunct1, rule_format, OF run] run
  show ?thesis by simp
qed

text \<open>
  The claim as stated fails: on a \<^verbatim>\<open>yi-large\<close> stream without usage block the chat
  handler yields the content chunk and then raises \<^verbatim>\<open>NotImplementedError\<close> from the
  fallback estimator, so no usage-bearing chunk is produced.
\<close>

theorem usage_chunk_absent_counterexample:
  "handle_chat_generate_stream_response sample_externals sample_calc ''yi-large'' []
     [one_choice ''yi-large'' None 0 (content_delta (Some ''Hello'')) None,
      one_choice ''yi-large'' None 0 (content_delta None) (Some ''stop'')]
     [UserPromptMessage (Text ''hi'') None] []
   = ([result_chunk [UserPromptMessage (Text ''hi'') None] ''yi-large'' None 0
         (AssistantPromptMessage (Text ''Hello'') None []) None],
      Some NotImplementedError) \<and>
   \<not> usage_last
       [result_chunk [UserPromptMessage (Text ''hi'') None] ''yi-large'' None 0
          (AssistantPromptMessage (Text ''Hello'') None []) None
        :: (int \<times> int) llm_result_chunk]"
  by (simp add: handle_chat_generate_stream_response_def chat_step_def one_choice_def
        content_delta_def legacy_function_call_def emit_step_def Let_def
        initial_chat_state_def has_finish_reason_def startswith_any_def
        chat_final_chunk_def num_tokens_from_messages_def estimation_model_def tokens_per_def
        usage_last_def has_usage_def result_chunk_def)

text \<open>
  The exception of the tokenizer ends the text handler as well: on a prompt that holds a
  special token and a stream without usage block, the content chunk is yielded and the
  string estimator raises \<^verbatim>\<open>ValueError\<close>.
\<close>

lemma text_handler_special_token:
  "handle_generate_stream_response sample_externals sample_calc ''gpt-3.5-turbo-instruct'' []
     [\<lparr>co_choices = [\<lparr>cc_text = Some ''ok'', cc_index = 0, cc_finish_reason = None\<rparr>],
       co_model = ''gpt-3.5-turbo-instruct'', co_system_fingerprint = None, co_usage = None\<rparr>,
      \<lparr>co_choices = [\<lparr>cc_text = None, cc_index = 0, cc_finish_reason = Some ''stop''\<rparr>],
       co_model = ''gpt-3.5-turbo-instruct'', co_system_fingerprint = None, co_usage = None\<rparr>]
     [UserPromptMessage (Text ''<|endoftext|>'') None]
   = ([result_chunk [UserPromptMessage (Text ''<|endoftext|>'') None]
         ''gpt-3.5-turbo-instruct'' None 0 (AssistantPromptMessage (Text ''ok'') None []) None],
      Some ValueError)"
  by (simp add: handle_generate_stream_response_def generate_step_def Let_def
        initial_generate_state_def generate_final_chunk_def num_tokens_from_string_def
        sum_all_def resolve_encoding_def sample_externals_def sample_encoding_def ntok_def
        startswith_any_def)

text \<open>
  Claim C9. When the legacy buffer holds a call and a fragment without tool calls and
  without function call arrives with a finish reason other than \<^verbatim>\<open>tool_calls\<close>, the
  buffered call is flushed: it is appended to \<open>final_tool_calls\<close>, the buffer is emptied,
  no chunk is yielded and the held final chunk has no tool calls. \<open>final_tool_calls\<close> is
  the list the fallback completion-token estimate is taken over. In every run of the chat
  handler, each chunk yielded whose finish reason is not \<^verbatim>\<open>tool_calls\<close> carries a message
  without tool calls.
\<close>

theorem legacy_call_counted_not_attached:
  fixes calc :: "'u calc_response_usage" and s :: "'u chat_state"
  shows
  "(\<forall>fc delta others.
      delta_assistant_message_function_call_storage s = Some fc \<and>
      ccc_choices chunk = delta # others \<and>
      (cd_tool_calls (ch_delta delta) = None \<or> cd_tool_calls (ch_delta delta) = Some []) \<and>
      cd_function_call (ch_delta delta) = None \<and>
      has_finish_reason model (ch_finish_reason delta) \<and>
      ch_finish_reason delta \<noteq> Some ''tool_calls'' \<longrightarrow>
      (\<exists>s'. chat_step model pm s chunk = Inr (s', []) \<and>
         final_tool_calls s' =
           final_tool_calls s @
             [\<lparr>tc_id = or_empty (fc_name fc), tc_type = ''function'',
               tc_function = \<lparr>tcf_name = or_empty (fc_name fc),
                              tcf_arguments = or_empty (fc_arguments fc)\<rparr>\<rparr>] \<and>
         delta_assistant_message_function_call_storage s' = None \<and>
         message_tool_calls (d_message (r_delta (final_chunk s'))) = [])) \<and>
   (prompt_tokens s \<noteq> 0 \<and> completion_tokens s = 0 \<longrightarrow>
      chat_final_chunk ext calc model creds pm tools s =
        (case num_tokens_from_messages ext model
                [AssistantPromptMessage (Text (full_assistant_content s)) None
                   (final_tool_calls s)] [] of
           Inl e \<Rightarrow> Inl e
         | Inr c \<Rightarrow> Inr (with_usage (final_chunk s) (calc model creds (prompt_tokens s) c)))) \<and>
   (\<forall>c\<in>set (fst (handle_chat_generate_stream_response ext calc model creds response pm tools)).
      d_finish_reason (r_delta c) \<noteq> Some ''tool_calls'' \<longrightarrow>
      message_tool_calls (d_message (r_delta c)) = [])"
proof -
  have flush: "\<forall>fc delta others.
      delta_assistant_message_function_call_storage s = Some fc \<and>
      ccc_choices chunk = delta # others \<and>
      (cd_tool_calls (ch_delta delta) = None \<or> cd_tool_calls (ch_delta delta) = Some []) \<and>
      cd_function_call (ch_delta delta) = None \<and>
      has_finish_reason model (ch_finish_reason delta) \<and>
      ch_finish_reason delta \<noteq> Some ''tool_calls'' \<longrightarrow>
      (\<exists>s'. chat_step model pm s chunk = Inr (s', []) \<and>
         final_tool_calls s' =
           final_tool_calls s @
             [\<lparr>tc_id = or_empty (fc_name fc), tc_type = ''function'',
               tc_function = \<lparr>tcf_name = or_empty (fc_name fc),
                              tcf_arguments = or_empty (fc_arguments fc)\<rparr>\<rparr>] \<and>
         delta_assistant_message_function_call_storage s' = None \<and>
         message_tool_calls (d_message (r_delta (final_chunk s'))) = [])"
    by (auto simp: chat_step_def legacy_function_call_def emit_step_def Let_def result_chunk_def)
  have estimate: "prompt_tokens s \<noteq> 0 \<and> completion_tokens s = 0 \<longrightarrow>
      chat_final_chunk ext calc model creds pm tools s =
        (case num_tokens_from_messages ext model
                [AssistantPromptMessage (Text (full_assistant_content s)) None
                   (final_tool_calls s)] [] of
           Inl e \<Rightarrow> Inl e
         | Inr c \<Rightarrow> Inr (with_usage (final_chunk s) (calc model creds (prompt_tokens s) c)))"
    by (simp add: chat_final_chunk_def)
  have chunks: "\<forall>c\<in>set (fst (handle_chat_generate_stream_response ext calc model creds response pm tools)).
      d_finish_reason (r_delta c) \<noteq> Some ''tool_calls'' \<longrightarrow>
      message_tool_calls (d_message (r_delta c)) = []"
  proof -
    obtain cs r where run: "run_stream (chat_step model pm) (initial_chat_state model pm :: 'u chat_state) response = (cs, r)"
      by (cases "run_stream (chat_step model pm) (initial_chat_state model pm :: 'u chat_state) response")
    note inv = chat_run_chunks[OF run]
    show ?thesis
    proof (cases r)
      case (Inl e)
      with run inv show ?thesis
        by (auto simp: handle_chat_generate_stream_response_def)
    next
      case (Inr s1)
      with run inv show ?thesis
        by (auto simp: handle_chat_generate_stream_response_def chat_final_chunk_def
                       with_usage_props
                 split: sum.splits if_splits)
    qed
  qed
  show ?thesis
    by (rule conjI[OF flush conjI[OF estimate chunks]])
qed

text \<open>
  An instance: the legacy stream of start, continuation and finish on \<^verbatim>\<open>gpt-4\<close>. The
  completed call enters the completion estimate, and the only chunk yielded, the final
  one, has no tool calls.
\<close>

theorem legacy_call_counted_not_attached_witness:
  "list_all (\<lambda>c. message_tool_calls (d_message (r_delta c)) = [])
     (fst (handle_chat_generate_stream_response sample_externals sample_calc ''gpt-4'' []
        [one_choice ''gpt-4'' None 0 (function_call_delta (Some ''f'') (Some ''{'')) None,
         one_choice ''gpt-4'' None 0 (function_call_delta None (Some ''}'')) None,
         one_choice ''gpt-4'' None 0 (content_delta None) (Some ''function_call'')]
        [UserPromptMessage (Text ''hi'') None] [])) \<and>
   length
     (fst (handle_chat_generate_stream_response sample_externals sample_calc ''gpt-4'' []
        [one_choice ''gpt-4'' None 0 (function_call_delta (Some ''f'') (Some ''{'')) None,
         one_choice ''gpt-4'' None 0 (function_call_delta None (Some ''}'')) None,
         one_choice ''gpt-4'' None 0 (content_delta None) (Some ''function_call'')]
        [UserPromptMessage (Text ''hi'') None] [])) = 1"
proof -
  let ?h = "handle_chat_generate_stream_response sample_externals sample_calc ''gpt-4'' []
        [one_choice ''gpt-4'' None 0 (function_call_delta (Some ''f'') (Some ''{'')) None,
         one_choice ''gpt-4'' None 0 (function_call_delta None (Some ''}'')) None,
         one_choice ''gpt-4'' None 0 (content_delta None) (Some ''function_call'')]
        [UserPromptMessage (Text ''hi'') None] []"
  have run: "?h =
     ([with_usage (result_chunk [UserPromptMessage (Text ''hi'') None] ''gpt-4'' None 0
         (AssistantPromptMessage (Text []) None []) (Some ''function_call'')) (8, 15)], None)"
    by (simp add: handle_chat_generate_stream_response_def chat_step_def one_choice_def
        content_delta_def function_call_delta_def legacy_function_call_def emit_step_def Let_def
        initial_chat_state_def has_finish_reason_def startswith_any_def
        chat_final_chunk_def num_tokens_from_messages_def estimation_model_def tokens_per_def
        convert_prompt_message_to_dict_def sum_all_def message_tokens_def item_tokens_def
        tool_call_dict_def
        resolve_encoding_def sample_externals_def sample_encoding_def sample_calc_def ntok_def
        sublist_Cons_right)
  from legacy_call_counted_not_attached
         [where ext = sample_externals and calc = sample_calc and model = "''gpt-4''"
            and creds = "[]" and pm = "[UserPromptMessage (Text ''hi'') None]" and tools = "[]"
            and response =
              "[one_choice ''gpt-4'' None 0 (function_call_delta (Some ''f'') (Some ''{'')) None,
                one_choice ''gpt-4'' None 0 (function_call_delta None (Some ''}'')) None,
                one_choice ''gpt-4'' None 0 (content_delta None) (Some ''function_call'')]",
          THEN conjunct2, THEN conjunct2]
  have "\<forall>c\<in>set (fst ?h). d_finish_reason (r_delta c) \<noteq> Some ''tool_calls'' \<longrightarrow>
           message_tool_calls (d_message (r_delta c)) = []" .
  then show ?thesis
    by (simp add: run with_usage_def result_chunk_def)
qed

subsection \<open>Legacy function calls\<close>

text \<open>
  Claim C3, on the code. The model \<^verbatim>\<open>gpt-4\<close> is fed the three fragments start (name
  \<^verbatim>\<open>f\<close>, arguments \<^verbatim>\<open>{\<close>), continuation (arguments \<^verbatim>\<open>}\<close>) and finish (finish reason
  \<^verbatim>\<open>function_call\<close>). The first two fragments yield nothing and fill the buffer. After
  the third the completed call \<^verbatim>\<open>f\<close> with arguments \<^verbatim>\<open>{}\<close> stands in the local list
  \<open>final_tool_calls\<close> only: the handler yields one chunk, the final one, and its message
  has no tool calls. The call the claim expects is not in the output.
\<close>

theorem legacy_function_call_dropped:
  "run_stream (chat_step ''gpt-4'' [UserPromptMessage (Text ''hi'') None])
     (initial_chat_state ''gpt-4'' [UserPromptMessage (Text ''hi'') None] :: (int \<times> int) chat_state)
     [one_choice ''gpt-4'' None 0 (function_call_delta (Some ''f'') (Some ''{'')) None,
      one_choice ''gpt-4'' None 0 (function_call_delta None (Some ''}'')) None]
   = ([], Inr ((initial_chat_state ''gpt-4'' [UserPromptMessage (Text ''hi'') None])
        \<lparr>delta_assistant_message_function_call_storage :=
           Some \<lparr>fc_name = Some ''f'', fc_arguments = Some ''{}''\<rparr>\<rparr>)) \<and>
   run_stream (chat_step ''gpt-4'' [UserPromptMessage (Text ''hi'') None])
     (initial_chat_state ''gpt-4'' [UserPromptMessage (Text ''hi'') None] :: (int \<times> int) chat_state)
     [one_choice ''gpt-4'' None 0 (function_call_delta (Some ''f'') (Some ''{'')) None,
      one_choice ''gpt-4'' None 0 (function_call_delta None (Some ''}'')) None,
      one_choice ''gpt-4'' None 0 (content_delta None) (Some ''function_call'')]
   = ([], Inr ((initial_chat_state ''gpt-4'' [UserPromptMessage (Text ''hi'') None])
        \<lparr>final_chunk :=
           result_chunk [UserPromptMessage (Text ''hi'') None] ''gpt-4'' None 0
             (AssistantPromptMessage (Text []) None []) (Some ''function_call''),
         final_tool_calls :=
           [\<lparr>tc_id = ''f'', tc_type = ''function'',
             tc_function = \<lparr>tcf_name = ''f'', tcf_arguments = ''{}''\<rparr>\<rparr>]\<rparr>)) \<and>
   handle_chat_generate_stream_response sample_externals sample_calc ''gpt-4'' []
     [one_choice ''gpt-4'' None 0 (function_call_delta (Some ''f'') (Some ''{'')) None,
      one_choice ''gpt-4'' None 0 (function_call_delta None (Some ''}'')) None,
      one_choice ''gpt-4'' None 0 (content_delta None) (Some ''function_call'')]
     [UserPromptMessage (Text ''hi'') None] []
   = ([with_usage
         (result_chunk [UserPromptMessage (Text ''hi'') None] ''gpt-4'' None 0
            (AssistantPromptMessage (Text []) None []) (Some ''function_call''))
         (8, 15)],
      None)"
  by (simp add: handle_chat_generate_stream_response_def chat_step_def one_choice_def
        content_delta_def function_call_delta_def legacy_function_call_def emit_step_def Let_def
        initial_chat_state_def has_finish_reason_def startswith_any_def
        chat_final_chunk_def num_tokens_from_messages_def estimation_model_def tokens_per_def
        convert_prompt_message_to_dict_def sum_all_def message_tokens_def item_tokens_def
        tool_call_dict_def
        resolve_encoding_def sample_externals_def sample_encoding_def sample_calc_def ntok_def
        sublist_Cons_right)

text \<open>
  On a \<^verbatim>\<open>yi-\<close> model the finish reason \<^verbatim>\<open>function_call\<close> does not count as one, the
  third fragment is skipped and the buffered call is never completed.
\<close>

lemma legacy_function_call_unfinished_on_yi:
  "run_stream (chat_step ''yi-large'' [UserPromptMessage (Text ''hi'') None])
     (initial_chat_state ''yi-large'' [UserPromptMessage (Text ''hi'') None] :: (int \<times> int) chat_state)
     [one_choice ''yi-large'' None 0 (function_call_delta (Some ''f'') (Some ''{'')) None,
      one_choice ''yi-large'' None 0 (function_call_delta None (Some ''}'')) None,
      one_choice ''yi-large'' None 0 (content_delta None) (Some ''function_call'')]
   = ([], Inr ((initial_chat_state ''yi-large'' [UserPromptMessage (Text ''hi'') None])
        \<lparr>delta_assistant_message_function_call_storage :=
           Some \<lparr>fc_name = Some ''f'', fc_arguments = Some ''{}''\<rparr>\<rparr>))"
  by (simp add: chat_step_def one_choice_def content_delta_def function_call_delta_def
        legacy_function_call_def initial_chat_state_def has_finish_reason_def
        startswith_any_def)

subsection \<open>Exceptions of the token estimator\<close>

lemma split_aux_nonempty: "split_aux sep acc s \<noteq> []"
  by (induction sep acc s rule: split_aux.induct) auto

lemma split_base_model_ft:
  assumes "prefix ''ft:'' model"
  shows "\<exists>b. split_base_model model = Inr b"
proof -
  from assms obtain rest where m: "model = ''ft:'' @ rest" by (auto simp: prefix_def)
  obtain b bs where "split_aux '':'' [] rest = b # bs"
    using split_aux_nonempty[of "'':''" "[]" rest] by (cases "split_aux '':'' [] rest") auto
  then show ?thesis
    by (simp add: m split_base_model_def py_split_def)
qed

lemma estimation_model_total: "\<exists>m. estimation_model model = Inr m"
proof (cases "prefix ''ft:'' model")
  case True
  from split_base_model_ft[OF True] obtain b where "split_base_model model = Inr b" by blast
  with True show ?thesis by (simp add: estimation_model_def)
next
  case False
  then show ?thesis by (simp add: estimation_model_def)
qed

lemma sum_results_Inl: "sum_results f xs = Inl e \<Longrightarrow> \<exists>x\<in>set xs. f x = Inl e"
  by (induction xs) (auto split: sum.splits)

lemma map_results_Inl: "map_results f xs = Inl e \<Longrightarrow> \<exists>x\<in>set xs. f x = Inl e"
  by (induction xs) (auto split: sum.splits)

lemma sum_all_Inl: "sum_all rs = Inl e \<Longrightarrow> Inl e \<in> set rs"
  unfolding sum_all_def by (drule sum_results_Inl) auto

lemma sum_results_Inr:
  "(\<And>x. x \<in> set xs \<Longrightarrow> \<exists>n. f x = Inr n) \<Longrightarrow> \<exists>n. sum_results f xs = Inr n"
proof (induction xs)
  case Nil
  then show ?case by simp
next
  case (Cons x xs)
  from Cons.prems[of x] obtain n where "f x = Inr n" by auto
  moreover from Cons.IH Cons.prems obtain k where "sum_results f xs = Inr k" by auto
  ultimately show ?case by simp
qed

lemma map_results_Inr_length:
  "map_results f xs = Inr ys \<Longrightarrow> length ys = length xs \<and> (\<forall>i<length xs. f (xs ! i) = Inr (ys ! i))"
proof (induction xs arbitrary: ys)
  case Nil
  then show ?case by simp
next
  case (Cons x xs)
  then show ?case
    by (auto split: sum.splits simp: nth_Cons split: nat.splits)
qed

lemma convert_content_error: "convert_content p = Inl e \<Longrightarrow> e = IndexError"
  by (cases p) (auto split: list.splits)

lemma convert_error:
  "convert_prompt_message_to_dict m = Inl e \<Longrightarrow> e \<in> {AssertionError, ValueError, IndexError}"
  by (cases m)
     (auto simp: convert_prompt_message_to_dict_def
           split: sum.splits content.splits if_splits
           dest!: map_results_Inl convert_content_error)

lemma ntok_error: "ntok encoding t = Inl e \<Longrightarrow> e = ValueError"
  by (auto simp: ntok_def split: option.splits)

lemma item_tokens_error:
  "item_tokens encoding tpn kv = Inl e \<Longrightarrow> e \<in> {KeyError, TypeError, AttributeError, ValueError}"
  by (cases kv, cases "snd kv")
     (auto simp: item_tokens_def sum_all_def split: sum.splits if_splits option.splits
           dest!: ntok_error)

lemma message_tokens_error:
  "message_tokens encoding tpm tpn d = Inl e \<Longrightarrow>
     e \<in> {KeyError, TypeError, AttributeError, ValueError}"
  by (auto simp: message_tokens_def sum_all_def split: sum.splits
           dest!: sum_results_Inl item_tokens_error)

lemma encode_value_error: "encode_value encoding v = Inl e \<Longrightarrow> e \<in> {TypeError, ValueError}"
  by (cases "(encoding, v)" rule: encode_value.cases) (auto dest!: ntok_error)

lemma py_iter_error: "py_iter v = Inl e \<Longrightarrow> e = TypeError"
  by (cases v) auto

lemma py_items_error: "py_items v = Inl e \<Longrightarrow> e = AttributeError"
  by (cases v rule: py_items.cases) auto

lemma listed_tokens_error: "listed_tokens encoding v = Inl e \<Longrightarrow> e \<in> {TypeError, ValueError}"
  by (auto simp: listed_tokens_def sum_all_def split: sum.splits
           dest!: sum_results_Inl py_iter_error encode_value_error)

lemma field_tokens_error:
  "field_tokens ext encoding kv = Inl e \<Longrightarrow> e \<in> {TypeError, ValueError}"
  by (cases kv)
     (auto simp: field_tokens_def sum_all_def split: sum.splits if_splits
           dest!: listed_tokens_error ntok_error)

lemma property_tokens_error:
  "property_tokens ext encoding kv = Inl e \<Longrightarrow> e \<in> {TypeError, AttributeError, ValueError}"
  by (cases kv)
     (auto simp: property_tokens_def sum_all_def split: sum.splits
           dest!: sum_results_Inl field_tokens_error py_items_error ntok_error)

lemma tool_tokens_error:
  "tool_tokens ext encoding tool = Inl e \<Longrightarrow> e \<in> {TypeError, AttributeError, ValueError}"
  by (auto simp: tool_tokens_def sum_all_def Let_def split: sum.splits if_splits option.splits
           dest!: sum_results_Inl property_tokens_error py_items_error listed_tokens_error
                  encode_value_error ntok_error)

lemma num_tokens_for_tools_error:
  "num_tokens_for_tools ext encoding tools = Inl e \<Longrightarrow>
     e \<in> {TypeError, AttributeError, ValueError}"
  by (auto simp: num_tokens_for_tools_def dest!: sum_results_Inl tool_tokens_error)

lemma not_implemented_iff:
  "num_tokens_from_messages ext model messages tools = Inl NotImplementedError \<longleftrightarrow>
   (\<exists>m. estimation_model model = Inr m \<and> tokens_per m = None)"
proof -
  from estimation_model_total obtain m where m: "estimation_model model = Inr m" by blast
  show ?thesis
  proof (cases "tokens_per m")
    case None
    with m show ?thesis by (simp add: num_tokens_from_messages_def)
  next
    case (Some tp)
    obtain tpm tpn where tp: "tp = (tpm, tpn)" by (cases tp)
    have "num_tokens_from_messages ext model messages tools \<noteq> Inl NotImplementedError"
    proof
      assume a: "num_tokens_from_messages ext model messages tools = Inl NotImplementedError"
      show False
      proof (cases "map_results convert_prompt_message_to_dict messages")
        case (Inl e)
        with a m Some tp have "e = NotImplementedError"
          by (simp add: num_tokens_from_messages_def)
        with Inl show False by (auto dest!: map_results_Inl convert_error)
      next
        case (Inr ds)
        with a m Some tp have
          "sum_all [sum_results (message_tokens (resolve_encoding ext m) tpm tpn) ds, Inr 3,
                    if tools \<noteq> [] then num_tokens_for_tools ext (resolve_encoding ext m) tools
                    else Inr 0] = Inl NotImplementedError"
          by (simp add: num_tokens_from_messages_def Let_def)
        from sum_all_Inl[OF this] have
          "sum_results (message_tokens (resolve_encoding ext m) tpm tpn) ds = Inl NotImplementedError \<or>
           num_tokens_for_tools ext (resolve_encoding ext m) tools = Inl NotImplementedError"
          by (auto split: if_splits)
        then show False
          by (auto dest!: sum_results_Inl message_tokens_error num_tokens_for_tools_error)
      qed
    qed
    with m Some show ?thesis by simp
  qed
qed

lemma default_tokenizer:
  assumes "estimation_model model = Inr m" and "tokens_per m = Some (tpm, tpn)"
      and "encoding_for_model ext m = None"
  shows "num_tokens_from_messages ext model messages tools =
           (case map_results convert_prompt_message_to_dict messages of
              Inl e \<Rightarrow> Inl e
            | Inr ds \<Rightarrow>
                sum_all [sum_results (message_tokens (cl100k_base ext) tpm tpn) ds, Inr 3,
                         if tools \<noteq> [] then num_tokens_for_tools ext (cl100k_base ext) tools
                         else Inr 0])"
  using assms by (simp add: num_tokens_from_messages_def resolve_encoding_def Let_def)

lemma content_value_not_tool_calls:
  "content_value c \<noteq> DToolCalls x" "DToolCalls x \<noteq> content_value c"
  by (cases c; simp)+

lemma item_tokens_plain:
  assumes "case v of DToolCalls tcs \<Rightarrow> key = ''tool_calls'' \<and> list_all (\<lambda>tc. tc_type tc \<noteq> ''text'') tcs
                   | _ \<Rightarrow> key \<noteq> ''tool_calls''"
      and "\<forall>t\<in>set (wire_text (key, v)). encoding t \<noteq> None"
  shows "\<exists>n. item_tokens encoding tpn (key, v) = Inr n"
  using assms
  by (cases v) (auto simp: item_tokens_def sum_all_def ntok_def list_ex_iff list_all_iff)

lemma tool_call_dict_type: "tc_type (tool_call_dict tc) = ''text'' \<longleftrightarrow> tc_type tc = ''text''"
  by (simp add: tool_call_dict_def)

lemma countable_message_tokens:
  assumes "countable_message encoding msg" and "convert_prompt_message_to_dict msg = Inr d"
  shows "\<exists>n. message_tokens encoding tpm tpn d = Inr n"
proof -
  from assms have texts: "\<forall>t\<in>set (wire_texts d). encoding t \<noteq> None"
    and calls: "list_all (\<lambda>tc. tc_type tc \<noteq> ''text'') (message_tool_calls msg)"
    by (simp_all add: countable_message_def list_all_iff)
  have "\<exists>n. sum_results (item_tokens encoding tpn) d = Inr n"
  proof (rule sum_results_Inr)
    fix kv assume kv: "kv \<in> set d"
    obtain key v where k: "kv = (key, v)" by (cases kv)
    have shape: "case v of DToolCalls tcs \<Rightarrow> key = ''tool_calls'' \<and> list_all (\<lambda>tc. tc_type tc \<noteq> ''text'') tcs
                   | _ \<Rightarrow> key \<noteq> ''tool_calls''"
      using assms(2) calls kv k
      by (cases msg)
         (auto simp: convert_prompt_message_to_dict_def list_all_iff tool_call_dict_type
                     content_value_not_tool_calls
               split: sum.splits content.splits if_splits dict_value.splits)
    have accepted: "\<forall>t\<in>set (wire_text (key, v)). encoding t \<noteq> None"
      using texts kv k by (auto simp: wire_texts_def)
    from item_tokens_plain[OF shape accepted] k
    show "\<exists>n. item_tokens encoding tpn kv = Inr n" by simp
  qed
  then show ?thesis by (auto simp: message_tokens_def sum_all_def)
qed

lemma countable_messages_sum:
  "list_all (countable_message encoding) messages \<Longrightarrow>
   \<exists>ds n. map_results convert_prompt_message_to_dict messages = Inr ds \<and>
          sum_results (message_tokens encoding tpm tpn) ds = Inr n"
proof (induction messages)
  case Nil
  then show ?case by simp
next
  case (Cons msg messages)
  from Cons.prems have c: "countable_message encoding msg" by simp
  then obtain d where d: "convert_prompt_message_to_dict msg = Inr d"
    by (auto simp: countable_message_def split: sum.splits)
  from countable_message_tokens[OF c d] obtain k where
    k: "message_tokens encoding tpm tpn d = Inr k" by blast
  from Cons obtain ds n where
    "map_results convert_prompt_message_to_dict messages = Inr ds"
    "sum_results (message_tokens encoding tpm tpn) ds = Inr n" by auto
  with d k show ?case by simp
qed

lemma countable_messages_counted:
  assumes "estimation_model model = Inr m" and "tokens_per m \<noteq> None"
      and "list_all (countable_message (resolve_encoding ext m)) messages"
  shows "\<exists>n. num_tokens_from_messages ext model messages [] = Inr n"
proof -
  from assms(2) obtain tpm tpn where tp: "tokens_per m = Some (tpm, tpn)" by auto
  from countable_messages_sum[OF assms(3), of tpm tpn]
  obtain ds n where
    "map_results convert_prompt_message_to_dict messages = Inr ds"
    "sum_results (message_tokens (resolve_encoding ext m) tpm tpn) ds = Inr n" by blast
  with assms(1) tp show ?thesis
    by (simp add: num_tokens_from_messages_def Let_def sum_all_def)
qed

lemma split_aux_plain:
  "c \<notin> set base \<Longrightarrow> split_aux [c] acc base = [rev acc @ base]"
  by (induction base arbitrary: acc) auto

lemma split_aux_first:
  "c \<notin> set base \<Longrightarrow> split_aux [c] acc (base @ c # r) = (rev acc @ base) # split_aux [c] [] r"
  by (induction base arbitrary: acc) auto

lemma split_base_model_fine_tuned:
  assumes "CHR '':'' \<notin> set base" and "tail = [] \<or> (\<exists>r. tail = CHR '':'' # r)"
  shows "split_base_model (''ft:'' @ base @ tail) = Inr base"
proof -
  have "\<exists>rest. split_aux '':'' [] (base @ tail) = base # rest"
    using assms split_aux_plain[of "CHR '':''" base "[]"]
          split_aux_first[of "CHR '':''" base "[]"]
    by auto
  then show ?thesis
    by (auto simp: split_base_model_def py_split_def)
qed

lemma estimation_model_fine_tuned:
  assumes "CHR '':'' \<notin> set base" and "tail = [] \<or> (\<exists>r. tail = CHR '':'' # r)"
  shows "estimation_model (''ft:'' @ base @ tail) = estimation_model base"
proof -
  have "\<not> prefix ''ft:'' base"
    using assms(1) by (auto simp: prefix_def)
  then show ?thesis
    using split_base_model_fine_tuned[OF assms]
    by (simp add: estimation_model_def)
qed

lemma num_tokens_fine_tuned:
  assumes "CHR '':'' \<notin> set base" and "tail = [] \<or> (\<exists>r. tail = CHR '':'' # r)"
  shows "num_tokens_from_messages ext (''ft:'' @ base @ tail) messages tools =
         num_tokens_from_messages ext base messages tools"
  by (simp only: num_tokens_from_messages_def estimation_model_fine_tuned[OF assms])

lemma estimation_model_renamed:
  assumes "model = ''chatgpt-4o-latest'' \<or>
           startswith_any [''o1'', ''o3'', ''o4'', ''gpt-4.1'', ''gpt-4.5''] model"
  shows "estimation_model model = Inr ''gpt-4o''"
proof -
  have "\<not> prefix ''ft:'' model"
    using assms by (auto simp: startswith_any_def prefix_def)
  then show ?thesis using assms by (simp add: estimation_model_def)
qed

lemma estimation_model_unchanged:
  assumes "\<not> prefix ''ft:'' model" and "model \<noteq> ''chatgpt-4o-latest''"
      and "\<not> startswith_any [''o1'', ''o3'', ''o4'', ''gpt-4.1'', ''gpt-4.5''] model"
  shows "estimation_model model = Inr model"
  using assms by (simp add: estimation_model_def)

subsection \<open>Token estimation\<close>

text \<open>
  Claim C5. Message-level token estimation raises \<^verbatim>\<open>NotImplementedError\<close> exactly when
  the normalized model name belongs to no per-message accounting family, whatever the
  messages, the tools and the tokenizer lookup. The normalization takes a fine-tuned name
  \<^verbatim>\<open>ft:base\<close> or \<^verbatim>\<open>ft:base:...\<close> to its base model, so that a fine-tuned model is counted
  exactly as its base model is; it renames \<^verbatim>\<open>chatgpt-4o-latest\<close> and the o1, o3, o4,
  gpt-4.1 and gpt-4.5 models to \<^verbatim>\<open>gpt-4o\<close>, and leaves every other name as it is. A model
  of a known family for which the tokenizer lookup fails is counted with the default
  tokenizer in place of its own, and the count is an integer for every list of messages
  the estimator can count with the tokenizer it resolves.
\<close>

theorem unsupported_model_is_hard_error:
  "(num_tokens_from_messages ext model messages tools = Inl NotImplementedError \<longleftrightarrow>
      (\<exists>m. estimation_model model = Inr m \<and> tokens_per m = None)) \<and>
   (\<forall>base tail.
      CHR '':'' \<notin> set base \<and> (tail = [] \<or> (\<exists>r. tail = CHR '':'' # r)) \<longrightarrow>
      estimation_model (''ft:'' @ base @ tail) = estimation_model base \<and>
      num_tokens_from_messages ext (''ft:'' @ base @ tail) messages tools =
        num_tokens_from_messages ext base messages tools) \<and>
   (model = ''chatgpt-4o-latest'' \<or>
    startswith_any [''o1'', ''o3'', ''o4'', ''gpt-4.1'', ''gpt-4.5''] model \<longrightarrow>
      estimation_model model = Inr ''gpt-4o'') \<and>
   (\<not> prefix ''ft:'' model \<and> model \<noteq> ''chatgpt-4o-latest'' \<and>
    \<not> startswith_any [''o1'', ''o3'', ''o4'', ''gpt-4.1'', ''gpt-4.5''] model \<longrightarrow>
      estimation_model model = Inr model) \<and>
   (\<forall>m tpm tpn.
      estimation_model model = Inr m \<and> tokens_per m = Some (tpm, tpn) \<and>
      encoding_for_model ext m = None \<longrightarrow>
      num_tokens_from_messages ext model messages tools =
        (case map_results convert_prompt_message_to_dict messages of
           Inl e \<Rightarrow> Inl e
         | Inr ds \<Rightarrow>
             sum_all [sum_results (message_tokens (cl100k_base ext) tpm tpn) ds, Inr 3,
                      if tools \<noteq> [] then num_tokens_for_tools ext (cl100k_base ext) tools
                      else Inr 0])) \<and>
   (\<forall>m. estimation_model model = Inr m \<and> tokens_per m \<noteq> None \<and>
        list_all (countable_message (resolve_encoding ext m)) messages \<longrightarrow>
        (\<exists>n. num_tokens_from_messages ext model messages [] = Inr n))"
proof -
  have hard: "num_tokens_from_messages ext model messages tools = Inl NotImplementedError \<longleftrightarrow>
      (\<exists>m. estimation_model model = Inr m \<and> tokens_per m = None)"
    by (rule not_implemented_iff)
  have fine_tuned: "\<forall>base tail.
      CHR '':'' \<notin> set base \<and> (tail = [] \<or> (\<exists>r. tail = CHR '':'' # r)) \<longrightarrow>
      estimation_model (''ft:'' @ base @ tail) = estimation_model base \<and>
      num_tokens_from_messages ext (''ft:'' @ base @ tail) messages tools =
        num_tokens_from_messages ext base messages tools"
  proof (intro allI impI, elim conjE)
    fix base tail :: string
    assume b: "CHR '':'' \<notin> set base" and t: "tail = [] \<or> (\<exists>r. tail = CHR '':'' # r)"
    show "estimation_model (''ft:'' @ base @ tail) = estimation_model base \<and>
      num_tokens_from_messages ext (''ft:'' @ base @ tail) messages tools =
        num_tokens_from_messages ext base messages tools"
      by (rule conjI[OF estimation_model_fine_tuned[OF b t] num_tokens_fine_tuned[OF b t]])
  qed
  have renamed: "model = ''chatgpt-4o-latest'' \<or>
    startswith_any [''o1'', ''o3'', ''o4'', ''gpt-4.1'', ''gpt-4.5''] model \<longrightarrow>
      estimation_model model = Inr ''gpt-4o''"
    by (intro impI) (rule estimation_model_renamed)
  have unchanged: "\<not> prefix ''ft:'' model \<and> model \<noteq> ''chatgpt-4o-latest'' \<and>
    \<not> startswith_any [''o1'', ''o3'', ''o4'', ''gpt-4.1'', ''gpt-4.5''] model \<longrightarrow>
      estimation_model model = Inr model"
    by (intro impI, elim conjE) (rule estimation_model_unchanged)
  have soft: "\<forall>m tpm tpn.
      estimation_model model = Inr m \<and> tokens_per m = Some (tpm, tpn) \<and>
      encoding_for_model ext m = None \<longrightarrow>
      num_tokens_from_messages ext model messages tools =
        (case map_results convert_prompt_message_to_dict messages of
           Inl e \<Rightarrow> Inl e
         | Inr ds \<Rightarrow>
             sum_all [sum_results (message_tokens (cl100k_base ext) tpm tpn) ds, Inr 3,
                      if tools \<noteq> [] then num_tokens_for_tools ext (cl100k_base ext) tools
                      else Inr 0])"
    by (intro allI impI, elim conjE) (rule default_tokenizer)
  have counted: "\<forall>m. estimation_model model = Inr m \<and> tokens_per m \<noteq> None \<and>
        list_all (countable_message (resolve_encoding ext m)) messages \<longrightarrow>
        (\<exists>n. num_tokens_from_messages ext model messages [] = Inr n)"
    by (intro allI impI, elim conjE) (rule countable_messages_counted)
  show ?thesis
    by (rule conjI[OF hard conjI[OF fine_tuned conjI[OF renamed conjI[OF unchanged
          conjI[OF soft counted]]]]])
qed

text \<open>
  Instances: \<^verbatim>\<open>yi-large\<close> belongs to no family and raises, and so does a model fine-tuned
  from it; a model fine-tuned from \<^verbatim>\<open>gpt-3.5-turbo\<close> is counted as its base model;
  \<^verbatim>\<open>chatgpt-4o-latest\<close> is counted as \<^verbatim>\<open>gpt-4o\<close>; \<^verbatim>\<open>gpt-4x\<close> has no tokenizer of its own,
  belongs to the gpt-4 family and is counted with the default tokenizer; the user message
  \<^verbatim>\<open>hi\<close> is one the estimator can count on \<^verbatim>\<open>gpt-4\<close>.
\<close>

theorem unsupported_model_is_hard_error_witness:
  "num_tokens_from_messages sample_externals ''yi-large''
     [UserPromptMessage (Text ''hi'') None] [] = Inl NotImplementedError \<and>
   num_tokens_from_messages sample_externals ''ft:yi-large:acme''
     [UserPromptMessage (Text ''hi'') None] [] = Inl NotImplementedError \<and>
   num_tokens_from_messages sample_externals ''ft:gpt-3.5-turbo:acme''
     [UserPromptMessage (Text ''hi'') None] [] = Inr 8 \<and>
   num_tokens_from_messages sample_externals ''chatgpt-4o-latest''
     [UserPromptMessage (Text ''hi'') None] [] = Inr 8 \<and>
   estimation_model ''chatgpt-4o-latest'' = Inr ''gpt-4o'' \<and>
   encoding_for_model sample_externals ''gpt-4x'' = None \<and>
   num_tokens_from_messages sample_externals ''gpt-4x''
     [UserPromptMessage (Text ''hi'') None] [] = Inr 8 \<and>
   countable_message (resolve_encoding sample_externals ''gpt-4'')
     (UserPromptMessage (Text ''hi'') None) \<and>
   (\<exists>n. num_tokens_from_messages sample_externals ''gpt-4''
          [UserPromptMessage (Text ''hi'') None] [] = Inr n)"
proof -
  note t = unsupported_model_is_hard_error
             [of sample_externals _ "[UserPromptMessage (Text ''hi'') None]" "[]"]
  have yi: "estimation_model ''yi-large'' = Inr ''yi-large'' \<and> tokens_per ''yi-large'' = None"
    by (simp add: estimation_model_def tokens_per_def startswith_any_def)
  from t[of "''yi-large''", THEN conjunct1] yi
  have hard: "num_tokens_from_messages sample_externals ''yi-large''
     [UserPromptMessage (Text ''hi'') None] [] = Inl NotImplementedError"
    by blast
  have c1: "CHR '':'' \<notin> set ''yi-large'' \<and> ('':acme'' = [] \<or> (\<exists>r. '':acme'' = CHR '':'' # r))"
    by simp
  from t[of "''yi-large''", THEN conjunct2, THEN conjunct1, rule_format, OF c1, THEN conjunct2]
       hard
  have ft_hard: "num_tokens_from_messages sample_externals ''ft:yi-large:acme''
     [UserPromptMessage (Text ''hi'') None] [] = Inl NotImplementedError"
    by simp
  have base: "num_tokens_from_messages sample_externals ''gpt-3.5-turbo''
     [UserPromptMessage (Text ''hi'') None] [] = Inr 8"
    by (simp add: num_tokens_from_messages_def Let_def estimation_model_def tokens_per_def
          startswith_any_def convert_prompt_message_to_dict_def sum_all_def message_tokens_def
          item_tokens_def resolve_encoding_def sample_externals_def sample_encoding_def
          ntok_def sublist_Cons_right)
  have c2: "CHR '':'' \<notin> set ''gpt-3.5-turbo'' \<and>
            ('':acme'' = [] \<or> (\<exists>r. '':acme'' = CHR '':'' # r))"
    by simp
  from t[of "''yi-large''", THEN conjunct2, THEN conjunct1, rule_format, OF c2, THEN conjunct2]
       base
  have ft_soft: "num_tokens_from_messages sample_externals ''ft:gpt-3.5-turbo:acme''
     [UserPromptMessage (Text ''hi'') None] [] = Inr 8"
    by simp
  have latest: "num_tokens_from_messages sample_externals ''chatgpt-4o-latest''
     [UserPromptMessage (Text ''hi'') None] [] = Inr 8"
    by (simp add: num_tokens_from_messages_def Let_def estimation_model_def tokens_per_def
          startswith_any_def convert_prompt_message_to_dict_def sum_all_def message_tokens_def
          item_tokens_def resolve_encoding_def sample_externals_def sample_encoding_def
          ntok_def sublist_Cons_right)
  have x: "estimation_model ''gpt-4x'' = Inr ''gpt-4x'' \<and> tokens_per ''gpt-4x'' = Some (3, 1) \<and>
           encoding_for_model sample_externals ''gpt-4x'' = None"
    by (simp add: estimation_model_def tokens_per_def startswith_any_def sample_externals_def)
  from t[of "''gpt-4x''", THEN conjunct2, THEN conjunct2, THEN conjunct2, THEN conjunct2,
         THEN conjunct1, rule_format, OF x]
  have soft: "num_tokens_from_messages sample_externals ''gpt-4x''
     [UserPromptMessage (Text ''hi'') None] [] = Inr 8"
    by (simp add: convert_prompt_message_to_dict_def sum_all_def message_tokens_def
          item_tokens_def sample_externals_def sample_encoding_def ntok_def
          sublist_Cons_right)
  have r: "''chatgpt-4o-latest'' = ''chatgpt-4o-latest'' \<or>
           startswith_any [''o1'', ''o3'', ''o4'', ''gpt-4.1'', ''gpt-4.5''] ''chatgpt-4o-latest''"
    by simp
  from t[of "''chatgpt-4o-latest''", THEN conjunct2, THEN conjunct2, THEN conjunct1,
         rule_format, OF r]
  have renamed: "estimation_model ''chatgpt-4o-latest'' = Inr ''gpt-4o''" .
  have c: "countable_message (resolve_encoding sample_externals ''gpt-4'')
             (UserPromptMessage (Text ''hi'') None)"
    by (simp add: countable_message_def convert_prompt_message_to_dict_def wire_texts_def
          resolve_encoding_def sample_externals_def sample_encoding_def sublist_Cons_right)
  have g: "estimation_model ''gpt-4'' = Inr ''gpt-4'' \<and> tokens_per ''gpt-4'' \<noteq> None \<and>
           list_all (countable_message (resolve_encoding sample_externals ''gpt-4''))
             [UserPromptMessage (Text ''hi'') None]"
    using c by (simp add: estimation_model_def tokens_per_def startswith_any_def)
  from t[of "''gpt-4''", THEN conjunct2, THEN conjunct2, THEN conjunct2, THEN conjunct2,
         THEN conjunct2, rule_format, OF g]
  have counted: "\<exists>n. num_tokens_from_messages sample_externals ''gpt-4''
          [UserPromptMessage (Text ''hi'') None] [] = Inr n" .
  from hard ft_hard ft_soft latest renamed soft x c counted show ?thesis by simp
qed

text \<open>
  Claim C4, with the role value counted. For the single user message \<^verbatim>\<open>hi\<close>, without
  name and without tools, on a model of the current convention (3 tokens per message, 1
  per name), the estimate is the per-message surcharge, the tokens of the role value
  \<^verbatim>\<open>user\<close>, the tokens of the content \<^verbatim>\<open>hi\<close> and the priming of 3: every value of
  the wire record is tokenized, the role as well as the content. \<open>us\<close> and \<open>hs\<close> are
  what the tokenizer of the model returns on the two words.
\<close>

theorem single_user_message_estimate:
  assumes "estimation_model model = Inr m" and "tokens_per m = Some (3, 1)"
      and "resolve_encoding ext m ''user'' = Some us"
      and "resolve_encoding ext m ''hi'' = Some hs"
  shows "num_tokens_from_messages ext model [UserPromptMessage (Text ''hi'') None] [] =
           Inr (3 + int (length us) + int (length hs) + 3)"
  using assms
  by (simp add: num_tokens_from_messages_def Let_def convert_prompt_message_to_dict_def
        sum_all_def message_tokens_def item_tokens_def ntok_def)

text \<open>An instance: the model \<^verbatim>\<open>gpt-4\<close> with the sample tokenizer, one token for each word.\<close>

theorem single_user_message_estimate_witness:
  "estimation_model ''gpt-4'' = Inr ''gpt-4'' \<and> tokens_per ''gpt-4'' = Some (3, 1) \<and>
   resolve_encoding sample_externals ''gpt-4'' ''user'' = Some [882] \<and>
   resolve_encoding sample_externals ''gpt-4'' ''hi'' = Some [6151] \<and>
   num_tokens_from_messages sample_externals ''gpt-4''
     [UserPromptMessage (Text ''hi'') None] [] = Inr 8"
proof -
  have e: "estimation_model ''gpt-4'' = Inr ''gpt-4''"
    by (simp add: estimation_model_def startswith_any_def)
  have t: "tokens_per ''gpt-4'' = Some (3, 1)"
    by (simp add: tokens_per_def)
  have u: "resolve_encoding sample_externals ''gpt-4'' ''user'' = Some [882]"
    by (simp add: resolve_encoding_def sample_externals_def sample_encoding_def
          sublist_Cons_right)
  have h: "resolve_encoding sample_externals ''gpt-4'' ''hi'' = Some [6151]"
    by (simp add: resolve_encoding_def sample_externals_def sample_encoding_def
          sublist_Cons_right)
  from single_user_message_estimate[OF e t u h] e t u h show ?thesis by simp
qed

text \<open>
  The claim as stated fails: with one token for \<^verbatim>\<open>hi\<close> its formula gives 7, and the
  estimate is 8, the token of the role value included.
\<close>

theorem single_user_message_estimate_counterexample:
  "resolve_encoding sample_externals ''gpt-4'' ''hi'' = Some [6151] \<and>
   num_tokens_from_messages sample_externals ''gpt-4''
     [UserPromptMessage (Text ''hi'') None] [] \<noteq>
   Inr (3 + int (length [6151 :: nat]) + 3)"
  by (simp add: num_tokens_from_messages_def Let_def convert_prompt_message_to_dict_def
        sum_all_def message_tokens_def item_tokens_def estimation_model_def tokens_per_def
        startswith_any_def resolve_encoding_def sample_externals_def sample_encoding_def
        ntok_def sublist_Cons_right)

subsection \<open>Invocation dispatcher\<close>

text \<open>
  Claim C7. A chat invocation whose parameters ask for the response format
  \<^verbatim>\<open>json_schema\<close> while the \<^verbatim>\<open>json_schema\<close> parameter is missing, empty, not a string or
  not parseable as JSON ends with an exception and without any call on the transport:
  \<^verbatim>\<open>ValueError\<close>, or the exception of the client constructor if that fails first.
\<close>

theorem malformed_json_schema_fails_before_transport:
  assumes "model_parameters ''response_format'' = Some (JStr ''json_schema'')"
      and "\<forall>js. model_parameters ''json_schema'' = Some (JStr js) \<longrightarrow> js = [] \<or> json_loads js = None"
  shows "chat_generate new_client json_loads model creds pm model_parameters tools stop stream user =
           (Inl (case new_client creds of Inl e \<Rightarrow> e | Inr client \<Rightarrow> ValueError), [])"
proof -
  have "transform_response_format json_loads model_parameters = Inl ValueError"
    using assms
    by (auto simp: transform_response_format_def split: option.splits json.splits)
  then show ?thesis
    by (simp add: chat_generate_def split: sum.splits)
qed

text \<open>
  Instances: the schema is missing, and the schema is not JSON. For contrast, with the
  schema \<^verbatim>\<open>{}\<close> the request reaches the transport.
\<close>

theorem malformed_json_schema_fails_before_transport_witness:
  "chat_generate sample_new_client sample_json_loads ''gpt-4'' []
     [UserPromptMessage (Text ''hi'') None]
     [''response_format'' \<mapsto> JStr ''json_schema'']
     [] [] True None = (Inl ValueError, []) \<and>
   chat_generate sample_new_client sample_json_loads ''gpt-4'' []
     [UserPromptMessage (Text ''hi'') None]
     [''response_format'' \<mapsto> JStr ''json_schema'', ''json_schema'' \<mapsto> JStr ''{not json'']
     [] [] True None = (Inl ValueError, [])"
proof -
  have a: "[''response_format'' \<mapsto> JStr ''json_schema''] ''response_format'' =
             Some (JStr ''json_schema'')"
    by simp
  have b: "\<forall>js. [''response_format'' \<mapsto> JStr ''json_schema''] ''json_schema'' = Some (JStr js) \<longrightarrow>
             js = [] \<or> sample_json_loads js = None"
    by simp
  have c: "[''response_format'' \<mapsto> JStr ''json_schema'', ''json_schema'' \<mapsto> JStr ''{not json'']
             ''response_format'' = Some (JStr ''json_schema'')"
    by simp
  have d: "\<forall>js. [''response_format'' \<mapsto> JStr ''json_schema'', ''json_schema'' \<mapsto> JStr ''{not json'']
                  ''json_schema'' = Some (JStr js) \<longrightarrow>
             js = [] \<or> sample_json_loads js = None"
    by (simp add: sample_json_loads_def)
  have missing: "chat_generate sample_new_client sample_json_loads ''gpt-4'' []
     [UserPromptMessage (Text ''hi'') None]
     [''response_format'' \<mapsto> JStr ''json_schema'']
     [] [] True None = (Inl ValueError, [])"
    by (simp only: malformed_json_schema_fails_before_transport[OF a b])
       (simp add: sample_new_client_def)
  have unparseable: "chat_generate sample_new_client sample_json_loads ''gpt-4'' []
     [UserPromptMessage (Text ''hi'') None]
     [''response_format'' \<mapsto> JStr ''json_schema'', ''json_schema'' \<mapsto> JStr ''{not json'']
     [] [] True None = (Inl ValueError, [])"
    by (simp only: malformed_json_schema_fails_before_transport[OF c d])
       (simp add: sample_new_client_def)
  show ?thesis by (rule conjI[OF missing unparseable])
qed

lemma well_formed_json_schema_reaches_transport:
  "chat_generate sample_new_client sample_json_loads ''gpt-4'' []
     [UserPromptMessage (Text ''hi'') None]
     [''response_format'' \<mapsto> JStr ''json_schema'', ''json_schema'' \<mapsto> JStr ''{}'']
     [] [] True None
   = (Inr (ToStreamHandler ''response''),
      [ChatCompletionsCreate
         \<lparr>rq_messages = [[(''role'', DStr ''user''), (''content'', DStr ''hi'')]],
          rq_model = ''gpt-4'', rq_stream = True,
          rq_model_parameters =
            [''response_format'' \<mapsto>
               JObj [(''type'', JStr ''json_schema''), (''json_schema'', JObj [])]],
          rq_tools = None, rq_stop = None, rq_user = None, rq_stream_options = True\<rparr>])"
  by (simp add: chat_generate_def transform_response_format_def sample_json_loads_def
        sample_client_def sample_new_client_def startswith_any_def
        clear_illegal_prompt_messages_def
        convert_prompt_message_to_dict_def Let_def sublist_Cons_right)

subsection \<open>A multi-call stream\<close>

text \<open>
  A run of the chat handler on a stream of the multi-call convention: a tool call opened
  with its id and name, its arguments in a second fragment, the \<^verbatim>\<open>tool_calls\<close> finish
  and a usage trailer. Each tool-call fragment yields a chunk with empty content, the
  finish yields the terminal chunk with the aggregated call, and the final chunk carries
  the usage of the trailer.
\<close>

lemma tool_calls_stream_example:
  "handle_chat_generate_stream_response sample_externals sample_calc ''gpt-4'' []
     [one_choice ''gpt-4'' None 0
        (tool_calls_delta
           [\<lparr>dtc_index = 0, dtc_id = Some ''call_1'', dtc_type = Some ''function'',
             dtc_function = Some \<lparr>dtf_name = Some ''f'', dtf_arguments = Some ''''\<rparr>\<rparr>]) None,
      one_choice ''gpt-4'' None 0
        (tool_calls_delta
           [\<lparr>dtc_index = 0, dtc_id = None, dtc_type = None,
             dtc_function = Some \<lparr>dtf_name = None, dtf_arguments = Some ''{}''\<rparr>\<rparr>]) None,
      one_choice ''gpt-4'' None 0 (content_delta None) (Some ''tool_calls''),
      \<lparr>ccc_choices = [], ccc_model = ''gpt-4'', ccc_system_fingerprint = None,
       ccc_usage = Some \<lparr>cu_prompt_tokens = 9, cu_completion_tokens = 4\<rparr>\<rparr>]
     [UserPromptMessage (Text ''hi'') None] []
   = ([result_chunk [UserPromptMessage (Text ''hi'') None] ''gpt-4'' None 0
         (AssistantPromptMessage (Text []) None []) None,
       result_chunk [UserPromptMessage (Text ''hi'') None] ''gpt-4'' None 0
         (AssistantPromptMessage (Text []) None []) None,
       result_chunk [UserPromptMessage (Text ''hi'') None] ''gpt-4'' None 0
         (AssistantPromptMessage (Text []) None
            [\<lparr>tc_id = ''call_1'', tc_type = ''function'',
              tc_function = \<lparr>tcf_name = ''f'', tcf_arguments = ''{}''\<rparr>\<rparr>])
         (Some ''tool_calls''),
       with_usage (initial_final_chunk ''gpt-4'' [UserPromptMessage (Text ''hi'') None]) (9, 4)],
      None)"
  by (simp add: handle_chat_generate_stream_response_def chat_step_def one_choice_def
        content_delta_def tool_calls_delta_def legacy_function_call_def emit_step_def Let_def
        initial_chat_state_def has_finish_reason_def aggregate_tool_call_def
        merge_tool_call_def merge_function_def chat_final_chunk_def sample_calc_def)


end
